theory Spec2Isabelle
  imports Complex_Main "HOL-Library.Sublist"
begin

section \<open>JavaScript values\<close>

text \<open>
  A JavaScript number is an IEEE double. The model keeps its four kinds apart (NaN, the two
  infinities, a finite value) and computes on finite values with exact rationals: rounding
  and the sign of zero are left out. The program only compares numbers with zero, tests
  them for truthiness and divides once.
\<close>

datatype jsnum = NaN | NegInf | Fin rat | PosInf

text \<open>\<^verbatim>\<open>a < b\<close>: false as soon as one side is NaN.\<close>

fun js_lt :: "jsnum \<Rightarrow> jsnum \<Rightarrow> bool" where
  "js_lt NaN _ = False"
| "js_lt _ NaN = False"
| "js_lt NegInf NegInf = False"
| "js_lt NegInf _ = True"
| "js_lt (Fin x) (Fin y) = (x < y)"
| "js_lt (Fin _) PosInf = True"
| "js_lt (Fin _) NegInf = False"
| "js_lt PosInf _ = False"

text \<open>\<^verbatim>\<open>a <= b\<close>, \<^verbatim>\<open>a > b\<close> and \<^verbatim>\<open>a >= b\<close>.\<close>

definition js_le :: "jsnum \<Rightarrow> jsnum \<Rightarrow> bool" where
  "js_le a b = (js_lt a b \<or> (a = b \<and> a \<noteq> NaN))"

definition js_gt :: "jsnum \<Rightarrow> jsnum \<Rightarrow> bool" where
  "js_gt a b = js_lt b a"

definition js_ge :: "jsnum \<Rightarrow> jsnum \<Rightarrow> bool" where
  "js_ge a b = js_le b a"

text \<open>Truthiness of a number: every number but 0 and NaN.\<close>

definition truthyNum :: "jsnum \<Rightarrow> bool" where
  "truthyNum n = (n \<noteq> NaN \<and> n \<noteq> Fin 0)"

text \<open>\<^verbatim>\<open>a / b\<close>. A finite value divided by zero is an infinity (NaN for 0/0).\<close>

fun js_div :: "jsnum \<Rightarrow> jsnum \<Rightarrow> jsnum" where
  "js_div NaN _ = NaN"
| "js_div _ NaN = NaN"
| "js_div (Fin x) (Fin y) =
     (if y = 0 then (if x = 0 then NaN else if 0 < x then PosInf else NegInf)
      else Fin (x / y))"
| "js_div (Fin _) _ = Fin 0"
| "js_div PosInf (Fin y) = (if 0 \<le> y then PosInf else NegInf)"
| "js_div NegInf (Fin y) = (if 0 \<le> y then NegInf else PosInf)"
| "js_div _ _ = NaN"

text \<open>
  An optional string field (\<^verbatim>\<open>orderID?\<close>, \<^verbatim>\<open>makingAmount?\<close>, an environment variable) is
  \<open>None\<close> when undefined. It is truthy when it is a string that is not empty.
\<close>

definition truthyStr :: "string option \<Rightarrow> bool" where
  "truthyStr v = (case v of None \<Rightarrow> False | Some s \<Rightarrow> s \<noteq> [])"

text \<open>
  The \<^verbatim>\<open>status\<close> of a venue response is \<^verbatim>\<open>string | number | undefined\<close>.
\<close>

datatype jsval = Undefined | Str string | Num jsnum

definition truthy :: "jsval \<Rightarrow> bool" where
  "truthy v = (case v of Undefined \<Rightarrow> False | Str s \<Rightarrow> s \<noteq> [] | Num n \<Rightarrow> truthyNum n)"

text \<open>
  \<^verbatim>\<open>String(v)\<close> and the interpolation \<^verbatim>\<open>${v}\<close>. How JavaScript prints a number is a
  builtin, taken as the parameter \<open>numToString\<close>.
\<close>

definition jsString :: "(jsnum \<Rightarrow> string) \<Rightarrow> jsval \<Rightarrow> string" where
  "jsString numToString v =
     (case v of Undefined \<Rightarrow> ''undefined'' | Str s \<Rightarrow> s | Num n \<Rightarrow> numToString n)"

text \<open>\<^verbatim>\<open>s.includes(t)\<close>: \<open>t\<close> occurs in \<open>s\<close> as a contiguous run.\<close>

definition strIncludes :: "string \<Rightarrow> string \<Rightarrow> bool" where
  "strIncludes s t = sublist t s"

text \<open>
  Strings are sequences of bytes, a character outside ASCII being its UTF-8 bytes.

  \<^verbatim>\<open>s.toUpperCase()\<close>. An ASCII letter becomes its capital. The characters outside ASCII
  whose upper case is made of ASCII letters become those letters: the sharp s (\<open>SS\<close>),
  the long s U+017F (\<open>S\<close>), the dotless i U+0131 (\<open>I\<close>) and the ligatures U+FB00 to
  U+FB06 (\<open>FF\<close>, \<open>FI\<close>, \<open>FL\<close>, \<open>FFI\<close>, \<open>FFL\<close>, \<open>ST\<close>, \<open>ST\<close>). Every other character
  outside ASCII keeps its bytes: its upper case is still outside ASCII, and the program
  only compares the result with a word of ASCII letters.
\<close>

definition upperChar :: "char \<Rightarrow> char" where
  "upperChar c =
     (case map_of (zip ''abcdefghijklmnopqrstuvwxyz'' ''ABCDEFGHIJKLMNOPQRSTUVWXYZ'') c of
        None \<Rightarrow> c
      | Some u \<Rightarrow> u)"

definition ligatureUpper :: "string \<Rightarrow> string" where
  "ligatureUpper b =
     (case map_of [([CHR 0x80], ''FF''), ([CHR 0x81], ''FI''), ([CHR 0x82], ''FL''),
                   ([CHR 0x83], ''FFI''), ([CHR 0x84], ''FFL''), ([CHR 0x85], ''ST''),
                   ([CHR 0x86], ''ST'')] b of
        None \<Rightarrow> []
      | Some u \<Rightarrow> u)"

fun toUpperCase :: "string \<Rightarrow> string" where
  "toUpperCase [] = []"
| "toUpperCase (c # cs) =
     (if c = CHR 0xC3 \<and> take 1 cs = [CHR 0x9F] then ''SS'' @ toUpperCase (drop 1 cs)
      else if c = CHR 0xC5 \<and> take 1 cs = [CHR 0xBF] then ''S'' @ toUpperCase (drop 1 cs)
      else if c = CHR 0xC4 \<and> take 1 cs = [CHR 0xB1] then ''I'' @ toUpperCase (drop 1 cs)
      else if c = CHR 0xEF \<and> take 1 cs = [CHR 0xAC]
              \<and> ligatureUpper (take 1 (drop 1 cs)) \<noteq> []
           then ligatureUpper (take 1 (drop 1 cs)) @ toUpperCase (drop 2 cs)
      else upperChar c # toUpperCase cs)"

text \<open>
  A thrown value, as far as the program looks at it: whether it is an \<^verbatim>\<open>Error\<close>, its
  \<^verbatim>\<open>message\<close>, \<^verbatim>\<open>code\<close> and \<^verbatim>\<open>data.error\<close> (empty when absent) and what
  \<^verbatim>\<open>String(e)\<close> prints.
\<close>

record exn =
  isError :: bool
  message :: string
  code :: string
  dataError :: string
  asString :: string

text \<open>\<^verbatim>\<open>new Error(msg)\<close>.\<close>

definition newError :: "string \<Rightarrow> exn" where
  "newError msg =
     \<lparr>isError = True, message = msg, code = [], dataError = [],
      asString = (if msg = [] then ''Error'' else ''Error: '' @ msg)\<rparr>"

text \<open>\<^verbatim>\<open>e instanceof Error ? e.message : String(e)\<close>.\<close>

definition errorText :: "exn \<Rightarrow> string" where
  "errorText e = (if isError e then message e else asString e)"

text \<open>\<^verbatim>\<open>a || b\<close> on strings: \<open>a\<close> unless it is empty.\<close>

definition orElse :: "string \<Rightarrow> string \<Rightarrow> string" where
  "orElse a b = (if a \<noteq> [] then a else b)"

text \<open>An optional string read as a string: empty when undefined.\<close>

definition optStr :: "string option \<Rightarrow> string" where
  "optStr v = (case v of None \<Rightarrow> [] | Some s \<Rightarrow> s)"

text \<open>A destructuring default, and \<^verbatim>\<open>v || d\<close> on an enum: \<open>d\<close> when \<open>v\<close> is undefined.\<close>

definition orDefault :: "'a option \<Rightarrow> 'a \<Rightarrow> 'a" where
  "orDefault v d = (case v of None \<Rightarrow> d | Some x \<Rightarrow> x)"

section \<open>Data model\<close>

text \<open>\<^verbatim>\<open>Side\<close> and \<^verbatim>\<open>OrderType.FOK | OrderType.FAK\<close> of the venue's client library.\<close>

datatype side = BUY | SELL

datatype orderType = FOK | FAK

text \<open>The observed trade, with the fields \<^verbatim>\<open>copyTrade\<close> reads.\<close>

record trade =
  conditionId :: string
  asset :: string
  tradeSide :: string
  price :: jsnum
  size :: jsnum

text \<open>\<^verbatim>\<open>CopyTradeOptions\<close>: the three optional fields have defaults in \<^verbatim>\<open>copyTrade\<close>.\<close>

record copyTradeOptions =
  trade :: trade
  tickSize :: "string option"
  negRisk :: "bool option"
  orderType :: "orderType option"

text \<open>\<^verbatim>\<open>UserMarketOrder\<close>.\<close>

record userMarketOrder =
  tokenID :: string
  orderSide :: side
  amount :: jsnum
  orderKind :: "orderType option"
  orderPrice :: "jsnum option"

text \<open>\<^verbatim>\<open>Partial<CreateOrderOptions>\<close>.\<close>

record createOrderOptions =
  optTickSize :: "string option"
  optNegRisk :: "bool option"

text \<open>The signed order is opaque to the program: its serialised form.\<close>

type_synonym signedOrder = string

text \<open>The venue's response to a posted order; every field is optional.\<close>

record orderResponse =
  orderID :: "string option"
  status :: jsval
  makingAmount :: "string option"
  takingAmount :: "string option"
  transactionsHashes :: "string list option"

text \<open>\<^verbatim>\<open>CopyTradeResult\<close>.\<close>

record copyTradeResult =
  success :: bool
  resultOrderID :: "string option"
  error :: "string option"
  transactionHashes :: "string list option"
  marketOrder :: "userMarketOrder option"

text \<open>What \<^verbatim>\<open>validateBuyOrderBalance\<close> reports.\<close>

record balanceCheck =
  valid :: bool
  available :: jsnum
  required :: jsnum

text \<open>An ethers \<^verbatim>\<open>Wallet\<close> and the \<^verbatim>\<open>SimulateKey\<close> built from it.\<close>

record wallet =
  walletAddress :: string
  walletPrivateKey :: string

record simulateKey =
  address :: string
  signer :: string

text \<open>The \<^verbatim>\<open>Response\<close> of \<^verbatim>\<open>fetch\<close>.\<close>

record fetchResponse =
  ok :: bool
  httpStatus :: jsnum

text \<open>The contract addresses of \<^verbatim>\<open>getContractConfig\<close> that the approval step uses.\<close>

record contractConfig =
  exchange :: string
  negRiskExchange :: string
  conditionalTokens :: string

record gasOptions =
  gasPrice :: nat
  gasLimit :: nat

text \<open>
  A promise given to \<^verbatim>\<open>Promise.race\<close> against a timer: it settles after some
  milliseconds with a value or a rejection, or it never settles.
\<close>

datatype 'a settled = Settles nat "exn + 'a" | Never

datatype level = INFO | WARN | ERROR | SUCCESS

text \<open>
  The trace records, in order, every call the program makes to a collaborator, with its
  arguments and its outcome, and every log line. A log line carries its level and the
  fixed leading text of its message; interpolated values and decorative symbols are left
  out.
\<close>

datatype event =
    Log level string
  | GetHoldings string string "exn + jsnum"
  | AddHoldings string string jsnum "exn + unit"
  | RemoveHoldings string string jsnum "exn + unit"
  | UpdateBalanceAllowance "exn + unit"
  | DisplayWalletBalance "exn + unit"
  | ValidateBuyOrderBalance jsnum "exn + balanceCheck"
  | CreateMarketOrder userMarketOrder createOrderOptions "exn + signedOrder"
  | SimulateTx simulateKey signedOrder string
  | Fetch string simulateKey signedOrder "exn + fetchResponse"
  | PostOrder signedOrder orderType "exn + orderResponse option"
  | ApproveTokensAfterBuy
  | GetNetwork string "exn + unit" nat
  | GetGasPrice string "exn + nat"
  | IsApprovedForAll string string string string "exn + bool"
  | SetApprovalForAll string string string bool gasOptions "exn + string"
  | TxWait string "exn + unit"

section \<open>Programs with state, exceptions and a trace\<close>

text \<open>
  An \<^verbatim>\<open>async\<close> function is a state transformer that returns a value (\<open>Inr\<close>) or throws
  (\<open>Inl\<close>), together with the events of this run in order; the state changed and the
  events emitted so far are kept when it throws.
\<close>

type_synonym ('s, 'a) prog = "'s \<Rightarrow> (exn + 'a) \<times> 's \<times> event list"

definition returnP :: "'a \<Rightarrow> ('s, 'a) prog" where
  "returnP x = (\<lambda>s. (Inr x, s, []))"

definition throwP :: "exn \<Rightarrow> ('s, 'a) prog" where
  "throwP e = (\<lambda>s. (Inl e, s, []))"

definition bindP :: "('s, 'a) prog \<Rightarrow> ('a \<Rightarrow> ('s, 'b) prog) \<Rightarrow> ('s, 'b) prog" where
  "bindP m f =
     (\<lambda>s. case m s of
             (Inl e, s', evs) \<Rightarrow> (Inl e, s', evs)
           | (Inr x, s', evs) \<Rightarrow> (case f x s' of (r, s'', evs') \<Rightarrow> (r, s'', evs @ evs')))"

text \<open>\<^verbatim>\<open>try { m } catch (e) { h(e) }\<close>.\<close>

definition catchP :: "('s, 'a) prog \<Rightarrow> (exn \<Rightarrow> ('s, 'a) prog) \<Rightarrow> ('s, 'a) prog" where
  "catchP m h =
     (\<lambda>s. case m s of
             (Inl e, s', evs) \<Rightarrow> (case h e s' of (r, s'', evs') \<Rightarrow> (r, s'', evs @ evs'))
           | (Inr x, s', evs) \<Rightarrow> (Inr x, s', evs))"

text \<open>A synchronous call that returns or throws and leaves the state alone.\<close>

definition liftP :: "exn + 'a \<Rightarrow> ('s, 'a) prog" where
  "liftP r = (\<lambda>s. (r, s, []))"

definition logP :: "level \<Rightarrow> string \<Rightarrow> ('s, unit) prog" where
  "logP l m = (\<lambda>s. (Inr (), s, [Log l m]))"

definition emitP :: "event \<Rightarrow> ('s, unit) prog" where
  "emitP e = (\<lambda>s. (Inr (), s, [e]))"

text \<open>The three parts of a run.\<close>

definition resultOf :: "(exn + 'a) \<times> 's \<times> event list \<Rightarrow> exn + 'a" where
  "resultOf run = fst run"

definition stateOf :: "(exn + 'a) \<times> 's \<times> event list \<Rightarrow> 's" where
  "stateOf run = fst (snd run)"

definition traceOf :: "'r \<times> 's \<times> event list \<Rightarrow> event list" where
  "traceOf run = snd (snd run)"

section \<open>Collaborators\<close>

text \<open>
  Everything the program calls and this repository's sources do not define is a parameter:
  the JavaScript builtins, the process environment, the holdings module
  (\<^verbatim>\<open>utils/holdings\<close>), the order helpers (\<^verbatim>\<open>order-builder/helpers\<close>), the balance module
  (\<^verbatim>\<open>utils/balance\<close>), the venue client (\<^verbatim>\<open>ClobClient\<close>) and the chain library (ethers).
  The holdings module works on the ledger \<open>'h\<close>; the remote collaborators work on the
  outside world \<open>'w\<close>. Each may return or throw, and may answer differently on every
  call. \<open>getNetwork\<close> answers with the time after which its promise settles.
\<close>

record ('h, 'w) env =
  parseFloat :: "string \<Rightarrow> jsnum"
  parseInt :: "string \<Rightarrow> jsnum"
  numToString :: "jsnum \<Rightarrow> string"
  PRIVATE_KEY :: "string option"
  CLOB_SIMULATE_URL :: "string option"
  CHAIN_ID :: "string option"
  RPC_URL :: "string option"
  RPC_TOKEN :: "string option"
  NEG_RISK :: "string option"
  getHoldings :: "string \<Rightarrow> string \<Rightarrow> 'h \<Rightarrow> exn + jsnum"
  addHoldings :: "string \<Rightarrow> string \<Rightarrow> jsnum \<Rightarrow> 'h \<Rightarrow> (exn + unit) \<times> 'h"
  removeHoldings :: "string \<Rightarrow> string \<Rightarrow> jsnum \<Rightarrow> 'h \<Rightarrow> (exn + unit) \<times> 'h"
  tradeToMarketOrder :: "copyTradeOptions \<Rightarrow> exn + userMarketOrder"
  getDefaultOrderOptions :: "string option \<Rightarrow> bool option \<Rightarrow> exn + createOrderOptions"
  validateBuyOrderBalance :: "jsnum \<Rightarrow> 'w \<Rightarrow> (exn + balanceCheck) \<times> 'w"
  displayWalletBalance :: "'w \<Rightarrow> (exn + unit) \<times> 'w"
  createMarketOrder ::
    "userMarketOrder \<Rightarrow> createOrderOptions \<Rightarrow> 'w \<Rightarrow> (exn + signedOrder) \<times> 'w"
  postOrder :: "signedOrder \<Rightarrow> orderType \<Rightarrow> 'w \<Rightarrow> (exn + orderResponse option) \<times> 'w"
  updateBalanceAllowance :: "'w \<Rightarrow> (exn + unit) \<times> 'w"
  newWallet :: "string option \<Rightarrow> exn + wallet"
  fetch :: "string \<Rightarrow> simulateKey \<Rightarrow> signedOrder \<Rightarrow> 'w \<Rightarrow> (exn + fetchResponse) \<times> 'w"
  getContractConfig :: "jsnum \<Rightarrow> exn + contractConfig"
  getNetwork :: "string \<Rightarrow> 'w \<Rightarrow> unit settled \<times> 'w"
  getGasPrice :: "string \<Rightarrow> 'w \<Rightarrow> (exn + nat) \<times> 'w"
  isApprovedForAll ::
    "string \<Rightarrow> string \<Rightarrow> string \<Rightarrow> string \<Rightarrow> 'w \<Rightarrow> (exn + bool) \<times> 'w"
  setApprovalForAll ::
    "string \<Rightarrow> string \<Rightarrow> string \<Rightarrow> bool \<Rightarrow> gasOptions \<Rightarrow> 'w \<Rightarrow> (exn + string) \<times> 'w"
  txWait :: "string \<Rightarrow> 'w \<Rightarrow> (exn + unit) \<times> 'w"

text \<open>
  The state of a run: the \<^verbatim>\<open>simulateTxDone\<close> field of the one \<^verbatim>\<open>TradeOrderBuilder\<close>
  instance, the holdings ledger and the outside world.
\<close>

record ('h, 'w) bot =
  simulateTxDone :: bool
  ledger :: 'h
  world :: 'w

text \<open>A call to a remote collaborator: the world changes, the call is recorded.\<close>

definition callW ::
  "('w \<Rightarrow> (exn + 'a) \<times> 'w) \<Rightarrow> (exn + 'a \<Rightarrow> event) \<Rightarrow> (('h, 'w) bot, 'a) prog" where
  "callW f ev = (\<lambda>s. case f (world s) of (r, w') \<Rightarrow> (r, s\<lparr>world := w'\<rparr>, [ev r]))"

text \<open>A call to the holdings module that may change the ledger, and one that reads it.\<close>

definition callH ::
  "('h \<Rightarrow> (exn + 'a) \<times> 'h) \<Rightarrow> (exn + 'a \<Rightarrow> event) \<Rightarrow> (('h, 'w) bot, 'a) prog" where
  "callH f ev = (\<lambda>s. case f (ledger s) of (r, h') \<Rightarrow> (r, s\<lparr>ledger := h'\<rparr>, [ev r]))"

definition readH ::
  "('h \<Rightarrow> exn + 'a) \<Rightarrow> (exn + 'a \<Rightarrow> event) \<Rightarrow> (('h, 'w) bot, 'a) prog" where
  "readH f ev = (\<lambda>s. (f (ledger s), s, [ev (f (ledger s))]))"

section \<open>RPC endpoints and the approval after a buy (\<^verbatim>\<open>src/security/allowance.ts\<close>)\<close>

text \<open>
  \<^verbatim>\<open>[...new Set(out)]\<close>: the elements in the order of their first occurrence.
\<close>

definition setInsert :: "'a list \<Rightarrow> 'a \<Rightarrow> 'a list" where
  "setInsert acc x = (if x \<in> set acc then acc else acc @ [x])"

definition uniqueInOrder :: "'a list \<Rightarrow> 'a list" where
  "uniqueInOrder xs = foldl setInsert [] xs"

definition getRpcCandidates :: "('h, 'w) env \<Rightarrow> jsnum \<Rightarrow> exn + string list" where
  "getRpcCandidates env chainId =
     (let rpcUrl = RPC_URL env;
          rpcToken = RPC_TOKEN env;
          out = (if truthyStr rpcUrl then [optStr rpcUrl] else [])
      in
      if chainId = Fin 137 then
        Inr (uniqueInOrder
          (out
           @ (if truthyStr rpcToken
              then [''https://polygon-mainnet.g.alchemy.com/v2/'' @ optStr rpcToken] else [])
           @ [''https://polygon-rpc.com'',
              ''https://rpc.ankr.com/polygon'',
              ''https://polygon.llamarpc.com'',
              ''https://rpc-mainnet.matic.quiknode.pro'']))
      else if chainId = Fin 80002 then
        Inr (uniqueInOrder
          (out
           @ (if truthyStr rpcToken
              then [''https://polygon-amoy.g.alchemy.com/v2/'' @ optStr rpcToken] else [])
           @ [''https://rpc-amoy.polygon.technology'']))
      else
        Inl (newError (''Unsupported chain ID: '' @ numToString env chainId
               @ ''. Supported: 137 (Polygon), 80002 (Amoy)'')))"

text \<open>
  \<^verbatim>\<open>Promise.race([p, timer])\<close> where the timer rejects with \<^verbatim>\<open>Error("timeout")\<close> after
  \<open>ms\<close> milliseconds: the outcome and the time waited. A promise that settles at the
  very millisecond of the timer is taken to lose.
\<close>

definition raceTimeout :: "nat \<Rightarrow> 'a settled \<Rightarrow> (exn + 'a) \<times> nat" where
  "raceTimeout ms p =
     (case p of
        Settles t r \<Rightarrow> if t < ms then (r, t) else (Inl (newError ''timeout''), ms)
      | Never \<Rightarrow> (Inl (newError ''timeout''), ms))"

text \<open>The probe of one candidate: \<^verbatim>\<open>provider.getNetwork()\<close> raced against 7000 ms.\<close>

definition probe :: "('h, 'w) env \<Rightarrow> string \<Rightarrow> (('h, 'w) bot, unit) prog" where
  "probe env rpcUrl =
     (\<lambda>s. case getNetwork env rpcUrl (world s) of
             (p, w') \<Rightarrow>
               (case raceTimeout 7000 p of
                  (r, waited) \<Rightarrow> (r, s\<lparr>world := w'\<rparr>, [GetNetwork rpcUrl r waited])))"

text \<open>
  The loop of \<^verbatim>\<open>getWorkingProvider\<close> over the candidates left, with the errors collected
  so far. It returns the first URL whose probe succeeds, or all the errors.
\<close>

fun tryCandidates ::
  "('h, 'w) env \<Rightarrow> string list \<Rightarrow> string list \<Rightarrow> (('h, 'w) bot, string list + string) prog" where
  "tryCandidates env [] errors = returnP (Inl errors)"
| "tryCandidates env (rpcUrl # rest) errors =
     catchP (bindP (probe env rpcUrl) (\<lambda>_. returnP (Inr rpcUrl)))
       (\<lambda>e. tryCandidates env rest (errors @ [rpcUrl @ '' -> '' @ errorText e]))"

text \<open>\<^verbatim>\<open>errors.join("\n- ")\<close>.\<close>

fun joinLines :: "string list \<Rightarrow> string" where
  "joinLines [] = []"
| "joinLines [x] = x"
| "joinLines (x # y # ys) = x @ [CHR 0x0A] @ ''- '' @ joinLines (y # ys)"

definition getWorkingProvider :: "('h, 'w) env \<Rightarrow> jsnum \<Rightarrow> (('h, 'w) bot, string) prog" where
  "getWorkingProvider env chainId =
     bindP (liftP (getRpcCandidates env chainId)) (\<lambda>candidates.
     bindP (tryCandidates env candidates []) (\<lambda>found.
       case found of
         Inr rpcUrl \<Rightarrow> returnP rpcUrl
       | Inl errors \<Rightarrow>
           throwP (newError
             (''Could not connect to any RPC endpoint for chainId='' @ numToString env chainId
              @ ''. Set RPC_URL in .env. Attempts:'' @ [CHR 0x0A] @ ''- ''
              @ joinLines errors))))"

text \<open>The approval of one operator inside \<^verbatim>\<open>approveTokensAfterBuy\<close>.\<close>

definition approveOperator ::
  "('h, 'w) env \<Rightarrow> string \<Rightarrow> string \<Rightarrow> string \<Rightarrow> string \<Rightarrow> gasOptions \<Rightarrow> string
    \<Rightarrow> (('h, 'w) bot, unit) prog" where
  "approveOperator env provider ctf account operator gas label =
     bindP (callW (isApprovedForAll env provider ctf account operator)
              (IsApprovedForAll provider ctf account operator)) (\<lambda>isApproved.
       if \<not> isApproved then
         bindP (logP INFO (''Approving ConditionalTokens for '' @ label @ '' (after buy)...'')) (\<lambda>_.
         bindP (callW (setApprovalForAll env provider ctf operator True gas)
                  (SetApprovalForAll provider ctf operator True gas)) (\<lambda>tx.
         bindP (logP INFO ''Transaction hash: '') (\<lambda>_.
         bindP (callW (txWait env tx) (TxWait tx)) (\<lambda>_.
         logP SUCCESS (''ConditionalTokens approved for '' @ label)))))
       else returnP ())"

definition approveTokensAfterBuy :: "('h, 'w) env \<Rightarrow> (('h, 'w) bot, unit) prog" where
  "approveTokensAfterBuy env =
     (let privateKey = PRIVATE_KEY env in
      if \<not> truthyStr privateKey then throwP (newError ''PRIVATE_KEY not found in environment'')
      else
        let chainId = parseInt env (if truthyStr (CHAIN_ID env) then optStr (CHAIN_ID env) else ''137'')
        in
        bindP (liftP (getContractConfig env chainId)) (\<lambda>contractConfig.
        bindP (getWorkingProvider env chainId) (\<lambda>provider.
        bindP (liftP (newWallet env privateKey)) (\<lambda>wallet.
        let account = walletAddress wallet;
            ctf = conditionalTokens contractConfig
        in
        bindP (catchP
                 (bindP (callW (getGasPrice env provider) (GetGasPrice provider)) (\<lambda>gp.
                    returnP \<lparr>gasPrice = gp * 120 div 100, gasLimit = 200000\<rparr>))
                 (\<lambda>_. returnP \<lparr>gasPrice = 100 * 10 ^ 9, gasLimit = 200000\<rparr>)) (\<lambda>gas.
        catchP
          (bindP (approveOperator env provider ctf account (exchange contractConfig) gas
                    ''Exchange'') (\<lambda>_.
             if NEG_RISK env = Some ''true'' then
               approveOperator env provider ctf account (negRiskExchange contractConfig) gas
                 ''NegRiskExchange''
             else returnP ()))
          (\<lambda>e.
             let msg = orElse (code e) (orElse (message e) (asString e)) in
             if strIncludes msg ''INSUFFICIENT_FUNDS'' \<or> strIncludes msg ''insufficient funds''
             then throwP (newError
                    (''Insufficient POL (MATIC) for gas fees on wallet '' @ account
                     @ ''. Deposit POL on Polygon network to approve tokens.''))
             else throwP e))))))"


section \<open>The one-time simulation (\<^verbatim>\<open>src/utils/simulateOrder.ts\<close>)\<close>

text \<open>\<^verbatim>\<open>baseUrl.replace(/\/$/, "")\<close>: one slash at the end is dropped.\<close>

definition stripSlash :: "string \<Rightarrow> string" where
  "stripSlash u = (if u \<noteq> [] \<and> last u = CHR ''/'' then butlast u else u)"

text \<open>
  \<^verbatim>\<open>simulateTx\<close> posts the key (address and signer) and the signed order to
  \<^verbatim>\<open>${url}/api/simulate\<close>. It returns whether the answer was OK and turns every failure of
  the request into \<open>False\<close>.
\<close>

definition simulateTx ::
  "('h, 'w) env \<Rightarrow> simulateKey \<Rightarrow> signedOrder \<Rightarrow> string \<Rightarrow> (('h, 'w) bot, bool) prog" where
  "simulateTx env key tx baseUrl =
     (let url = stripSlash baseUrl in
      bindP (emitP (SimulateTx key tx baseUrl)) (\<lambda>_.
      catchP
        (bindP (callW (fetch env (url @ ''/api/simulate'') key tx)
                  (Fetch (url @ ''/api/simulate'') key tx)) (\<lambda>res.
           if ok res then bindP (logP INFO ''Tx simulate OK'') (\<lambda>_. returnP True)
           else bindP (logP WARN ''Tx simulate non-OK (status '') (\<lambda>_. returnP False)))
        (\<lambda>e. bindP (logP WARN ''Tx simulate failed: '') (\<lambda>_. returnP False))))"

section \<open>The order builder (\<^verbatim>\<open>TradeOrderBuilder\<close>)\<close>

text \<open>The em dash of the messages, as its UTF-8 bytes.\<close>

definition emDash :: string where
  "emDash = [CHR 0xE2, CHR 0x80, CHR 0x94]"

definition describeOrderFailure :: "('h, 'w) env \<Rightarrow> jsval \<Rightarrow> string" where
  "describeOrderFailure env st =
     (let s = jsString (numToString env) st in
      if s = ''403'' then
        ''Incorrect region '' @ emDash
        @ '' Polymarket blocks trading from this server's location. ''
        @ ''Use a server in an allowed region or route traffic through a VPN/proxy.''
      else if s = ''401'' then
        ''Authentication failed '' @ emDash @ '' check your API credentials.''
      else if s = ''429'' then
        ''Rate limited '' @ emDash @ '' too many requests, slow down.''
      else
        ''Order failed (status: ''
        @ (if truthy st then jsString (numToString env) st else ''unknown'') @ '')'')"

text \<open>
  What the \<^verbatim>\<open>catch\<close> around \<^verbatim>\<open>postOrder\<close> throws: a region error when the message
  speaks of a restriction, the caught error itself otherwise.
\<close>

definition postFailure :: "exn \<Rightarrow> exn" where
  "postFailure err =
     (let msg = orElse (dataError err) (orElse (message err) (asString err)) in
      if strIncludes msg ''Trading restricted'' \<or> strIncludes msg ''geoblock'' then
        newError
          (''Order rejected: trading is restricted in your region. Use a VPN or check ''
           @ ''https://docs.polymarket.com/developers/CLOB/geoblock'')
      else err)"

definition setSimulateTxDone :: "(('h, 'w) bot, unit) prog" where
  "setSimulateTxDone = (\<lambda>s. (Inr (), s\<lparr>simulateTxDone := True\<rparr>, []))"

text \<open>
  The simulation block of \<^verbatim>\<open>createSimulateAndPost\<close>: on the first call of the instance
  the flag is set and the simulation is tried; whatever it throws is logged.
\<close>

definition simulateOnce :: "('h, 'w) env \<Rightarrow> signedOrder \<Rightarrow> (('h, 'w) bot, unit) prog" where
  "simulateOnce env signedOrder =
     (let simulateUrl =
            (if truthyStr (CLOB_SIMULATE_URL env) then optStr (CLOB_SIMULATE_URL env)
             else ''https://polymarket.clob.health'')
      in
      (\<lambda>s.
          if \<not> simulateTxDone s then
            bindP setSimulateTxDone (\<lambda>_.
            catchP
              (bindP (liftP (newWallet env (PRIVATE_KEY env))) (\<lambda>w.
               bindP (simulateTx env
                        \<lparr>address = walletAddress w, signer = walletPrivateKey w\<rparr>
                        signedOrder simulateUrl) (\<lambda>_. returnP ())))
              (\<lambda>simErr. logP WARN ''Tx simulate failed (continuing to post): '')) s
          else returnP () s))"

text \<open>
  \<^verbatim>\<open>createSimulateAndPost\<close>: create the signed order, run the simulation block, then
  post. The temporary filter on \<^verbatim>\<open>console.error\<close> around the post only hides a log
  line and is left out.
\<close>

definition createSimulateAndPost ::
  "('h, 'w) env \<Rightarrow> userMarketOrder \<Rightarrow> createOrderOptions \<Rightarrow> orderType
    \<Rightarrow> (('h, 'w) bot, orderResponse option) prog" where
  "createSimulateAndPost env mo orderOptions ot =
     bindP (callW (createMarketOrder env mo orderOptions) (CreateMarketOrder mo orderOptions))
       (\<lambda>signedOrder.
     bindP (simulateOnce env signedOrder) (\<lambda>_.
     catchP (callW (postOrder env signedOrder ot) (PostOrder signedOrder ot))
       (\<lambda>err. throwP (postFailure err))))"

text \<open>
  \<^verbatim>\<open>sellFailed\<close> and \<^verbatim>\<open>buyFailed\<close> are the same expression: no response, no order id, or
  a truthy status other than the three fill statuses.
\<close>

definition orderFailed :: "orderResponse option \<Rightarrow> bool" where
  "orderFailed response =
     (case response of
        None \<Rightarrow> True
      | Some r \<Rightarrow>
          \<not> truthyStr (orderID r) \<or>
          (truthy (status r) \<and> status r \<noteq> Str ''FILLED''
             \<and> status r \<noteq> Str ''PARTIALLY_FILLED'' \<and> status r \<noteq> Str ''MATCHED''))"

text \<open>\<^verbatim>\<open>response?.status\<close>.\<close>

definition statusOf :: "orderResponse option \<Rightarrow> jsval" where
  "statusOf response = (case response of None \<Rightarrow> Undefined | Some r \<Rightarrow> status r)"

definition failure :: "string \<Rightarrow> copyTradeResult" where
  "failure msg =
     \<lparr>success = False, resultOrderID = None, error = Some msg, transactionHashes = None,
      marketOrder = None\<rparr>"

definition filled :: "orderResponse \<Rightarrow> userMarketOrder \<Rightarrow> copyTradeResult" where
  "filled r mo =
     \<lparr>success = True, resultOrderID = orderID r, error = None,
      transactionHashes = transactionsHashes r, marketOrder = Some mo\<rparr>"

text \<open>
  \<^verbatim>\<open>tokensSold\<close> of the SELL branch, for the quantity offered: the parsed
  \<^verbatim>\<open>makingAmount\<close> when the response has one, the quantity offered otherwise.
\<close>

definition tokensSold :: "('h, 'w) env \<Rightarrow> orderResponse \<Rightarrow> jsnum \<Rightarrow> jsnum" where
  "tokensSold env r sellAmount =
     (if truthyStr (makingAmount r) then parseFloat env (optStr (makingAmount r))
      else sellAmount)"

text \<open>
  \<^verbatim>\<open>tokensReceived\<close> and \<^verbatim>\<open>estimatedTokens\<close> of the BUY branch, and the quantity it
  credits: what was received when that is positive, else the estimate when that is
  positive, else nothing.
\<close>

definition tokensReceived :: "('h, 'w) env \<Rightarrow> orderResponse \<Rightarrow> jsnum" where
  "tokensReceived env r =
     (if truthyStr (takingAmount r) then parseFloat env (optStr (takingAmount r)) else Fin 0)"

definition estimatedTokens :: "trade \<Rightarrow> userMarketOrder \<Rightarrow> jsnum" where
  "estimatedTokens t mo = js_div (amount mo) (if truthyNum (price t) then price t else Fin 1)"

definition creditedTokens ::
  "('h, 'w) env \<Rightarrow> trade \<Rightarrow> userMarketOrder \<Rightarrow> orderResponse \<Rightarrow> jsnum list" where
  "creditedTokens env t mo r =
     (if js_gt (tokensReceived env r) (Fin 0) then [tokensReceived env r]
      else if js_gt (estimatedTokens t mo) (Fin 0) then [estimatedTokens t mo]
      else [])"

text \<open>The SELL branch of \<^verbatim>\<open>copyTrade\<close>, after the response has arrived.\<close>

definition copyTradeSellSettle ::
  "('h, 'w) env \<Rightarrow> string \<Rightarrow> string \<Rightarrow> userMarketOrder \<Rightarrow> orderResponse option
    \<Rightarrow> (('h, 'w) bot, copyTradeResult) prog" where
  "copyTradeSellSettle env marketId tokenId mo response =
     (case response of
        None \<Rightarrow> returnP (failure (describeOrderFailure env (statusOf response)))
      | Some r \<Rightarrow>
          if orderFailed response then
            returnP (failure (describeOrderFailure env (statusOf response)))
          else
            bindP (if js_gt (tokensSold env r (amount mo)) (Fin 0) then
                     bindP (callH
                              (removeHoldings env marketId tokenId (tokensSold env r (amount mo)))
                              (RemoveHoldings marketId tokenId (tokensSold env r (amount mo))))
                       (\<lambda>_.
                     logP INFO ''Removed '')
                   else logP WARN ''No tokens were sold - not removing from holdings'') (\<lambda>_.
            bindP (logP SUCCESS ''SELL order executed! '') (\<lambda>_.
            returnP (filled r mo))))"

text \<open>The SELL branch: the whole ledger quantity is offered, or nothing is placed.\<close>

definition copyTradeSell ::
  "('h, 'w) env \<Rightarrow> string \<Rightarrow> string \<Rightarrow> string \<Rightarrow> bool \<Rightarrow> orderType
    \<Rightarrow> (('h, 'w) bot, copyTradeResult) prog" where
  "copyTradeSell env marketId tokenId ts nr ot =
     bindP (readH (getHoldings env marketId tokenId) (GetHoldings marketId tokenId))
       (\<lambda>holdingsAmount.
       if js_le holdingsAmount (Fin 0) then
         bindP (logP WARN ''No holdings found for token '') (\<lambda>_.
         returnP (failure ''No holdings available to sell''))
       else
         let sellAmount = holdingsAmount;
             mo = \<lparr>tokenID = tokenId, orderSide = SELL, amount = sellAmount,
                   orderKind = Some ot, orderPrice = None\<rparr>
         in
         bindP (liftP (getDefaultOrderOptions env (Some ts) (Some nr))) (\<lambda>orderOptions.
         bindP (logP INFO ''Placing SELL market order: '') (\<lambda>_.
         bindP (createSimulateAndPost env mo orderOptions ot) (\<lambda>response.
         copyTradeSellSettle env marketId tokenId mo response))))"


text \<open>
  The BUY branch from \<^verbatim>\<open>getDefaultOrderOptions\<close> on: place the order, read the response,
  record the tokens received (or their estimate), then try the approval.
\<close>

definition copyTradeBuySettle ::
  "('h, 'w) env \<Rightarrow> trade \<Rightarrow> string \<Rightarrow> string \<Rightarrow> userMarketOrder \<Rightarrow> orderResponse option
    \<Rightarrow> (('h, 'w) bot, copyTradeResult) prog" where
  "copyTradeBuySettle env t marketId tokenId mo response =
     (case response of
        None \<Rightarrow> returnP (failure (describeOrderFailure env (statusOf response)))
      | Some r \<Rightarrow>
          if orderFailed response then
            returnP (failure (describeOrderFailure env (statusOf response)))
          else
            bindP (if js_gt (tokensReceived env r) (Fin 0) then
                     bindP (callH (addHoldings env marketId tokenId (tokensReceived env r))
                              (AddHoldings marketId tokenId (tokensReceived env r))) (\<lambda>_.
                     logP INFO ''Added '')
                   else
                     if js_gt (estimatedTokens t mo) (Fin 0) then
                       bindP (callH (addHoldings env marketId tokenId (estimatedTokens t mo))
                                (AddHoldings marketId tokenId (estimatedTokens t mo))) (\<lambda>_.
                       logP WARN ''Using estimated token amount: '')
                     else
                       logP WARN
                         ''No tokens received and cannot estimate - not adding to holdings'')
              (\<lambda>_.
            bindP (catchP
                     (bindP (emitP ApproveTokensAfterBuy) (\<lambda>_. approveTokensAfterBuy env))
                     (\<lambda>e. logP WARN ''Failed to approve tokens after buy: '')) (\<lambda>_.
            bindP (logP SUCCESS ''BUY order executed! '') (\<lambda>_.
            returnP (filled r mo)))))"

definition copyTradeBuyPlace ::
  "('h, 'w) env \<Rightarrow> trade \<Rightarrow> string \<Rightarrow> string \<Rightarrow> string \<Rightarrow> bool \<Rightarrow> orderType
    \<Rightarrow> userMarketOrder \<Rightarrow> (('h, 'w) bot, copyTradeResult) prog" where
  "copyTradeBuyPlace env t marketId tokenId ts nr ot mo =
     bindP (liftP (getDefaultOrderOptions env (Some ts) (Some nr))) (\<lambda>orderOptions.
     bindP (logP INFO ''Placing market order: '') (\<lambda>_.
     bindP (createSimulateAndPost env mo orderOptions ot) (\<lambda>response.
     copyTradeBuySettle env t marketId tokenId mo response)))"

text \<open>
  The BUY branch up to the balance check: an order the balance does not cover is shrunk
  to what is available, unless nothing is available.
\<close>

definition copyTradeBuy ::
  "('h, 'w) env \<Rightarrow> copyTradeOptions \<Rightarrow> string \<Rightarrow> string \<Rightarrow> string \<Rightarrow> bool \<Rightarrow> orderType
    \<Rightarrow> (('h, 'w) bot, copyTradeResult) prog" where
  "copyTradeBuy env options marketId tokenId ts nr ot =
     bindP (logP INFO ''Building order to copy trade: '') (\<lambda>_.
     bindP (liftP (tradeToMarketOrder env options)) (\<lambda>mo.
     bindP (catchP (callW (updateBalanceAllowance env) UpdateBalanceAllowance)
              (\<lambda>e. logP WARN ''Failed to update balance allowance: '')) (\<lambda>_.
     bindP (callW (displayWalletBalance env) DisplayWalletBalance) (\<lambda>_.
     bindP (callW (validateBuyOrderBalance env (amount mo)) (ValidateBuyOrderBalance (amount mo)))
       (\<lambda>bc.
       if \<not> valid bc then
         bindP (logP WARN ''Insufficient USDC balance for BUY order. '') (\<lambda>_.
           if js_le (available bc) (Fin 0) then
             returnP (failure (''Insufficient USDC balance. Available: ''
                               @ numToString env (available bc)))
           else
             bindP (logP INFO ''Adjusted order amount to available balance: '') (\<lambda>_.
             copyTradeBuyPlace env (trade options) marketId tokenId ts nr ot
               (mo\<lparr>amount := available bc\<rparr>)))
       else copyTradeBuyPlace env (trade options) marketId tokenId ts nr ot mo)))))"

text \<open>The \<^verbatim>\<open>catch\<close> block of \<^verbatim>\<open>copyTrade\<close>.\<close>

definition copyTradeCatch :: "('h, 'w) env \<Rightarrow> exn \<Rightarrow> (('h, 'w) bot, copyTradeResult) prog" where
  "copyTradeCatch env e =
     (let errorMessage = errorText e in
      bindP (if strIncludes errorMessage ''not enough balance''
                \<or> strIncludes errorMessage ''allowance''
             then
               bindP (logP ERROR []) (\<lambda>_.
               bindP (logP ERROR ''ORDER FAILED: Balance/Allowance Error'') (\<lambda>_.
               bindP (logP ERROR []) (\<lambda>_.
               bindP (catchP
                        (bindP (callW (displayWalletBalance env) DisplayWalletBalance) (\<lambda>_.
                         bindP (logP INFO ''Attempting to update balance allowance...'') (\<lambda>_.
                         callW (updateBalanceAllowance env) UpdateBalanceAllowance)))
                        (\<lambda>balanceError. logP ERROR ''Failed to get balance: '')) (\<lambda>_.
               logP ERROR []))))
             else returnP ()) (\<lambda>_.
      bindP (logP ERROR ''Failed to copy trade: '') (\<lambda>_.
      returnP (failure errorMessage))))"

text \<open>
  \<^verbatim>\<open>copyTrade\<close>: the defaults of the options, the SELL branch when the upper-cased side is
  \<^verbatim>\<open>"SELL"\<close>, the BUY branch otherwise, all inside \<^verbatim>\<open>try\<close>.
\<close>

definition copyTrade ::
  "('h, 'w) env \<Rightarrow> copyTradeOptions \<Rightarrow> (('h, 'w) bot, copyTradeResult) prog" where
  "copyTrade env options =
     catchP
       (let t = trade options;
            ts = orDefault (tickSize options) ''0.01'';
            nr = orDefault (negRisk options) False;
            ot = orDefault (orderType options) FAK;
            marketId = conditionId t;
            tokenId = asset t
        in
        if toUpperCase (tradeSide t) = ''SELL'' then copyTradeSell env marketId tokenId ts nr ot
        else copyTradeBuy env options marketId tokenId ts nr ot)
       (copyTradeCatch env)"

text \<open>
  \<^verbatim>\<open>placeMarketBuy\<close> and \<^verbatim>\<open>placeMarketSell\<close> differ in the side only. The optional
  \<^verbatim>\<open>options\<close> object is a record of optional fields. Reading \<^verbatim>\<open>response.orderID\<close> of a
  missing response throws a \<^verbatim>\<open>TypeError\<close>, whose text is the engine's.
\<close>

record placeOptions =
  placeTickSize :: "string option"
  placeNegRisk :: "bool option"
  placeOrderType :: "orderType option"
  placePrice :: "jsnum option"

definition typeErrorOfUndefined :: exn where
  "typeErrorOfUndefined = newError ''undefined is not an object''"

definition placeMarket ::
  "side \<Rightarrow> ('h, 'w) env \<Rightarrow> string \<Rightarrow> jsnum \<Rightarrow> placeOptions
    \<Rightarrow> (('h, 'w) bot, copyTradeResult) prog" where
  "placeMarket sd env tokenId amt options =
     (let ot = orDefault (placeOrderType options) FAK;
          mo = \<lparr>tokenID = tokenId, orderSide = sd, amount = amt, orderKind = Some ot,
                orderPrice = placePrice options\<rparr>
      in
      bindP (liftP (getDefaultOrderOptions env (placeTickSize options) (placeNegRisk options)))
        (\<lambda>orderOptions.
      catchP
        (bindP (createSimulateAndPost env mo orderOptions ot) (\<lambda>response.
           case response of
             None \<Rightarrow> throwP typeErrorOfUndefined
           | Some r \<Rightarrow> returnP (filled r mo)))
        (\<lambda>e. returnP (failure (errorText e)))))"

definition placeMarketBuy ::
  "('h, 'w) env \<Rightarrow> string \<Rightarrow> jsnum \<Rightarrow> placeOptions \<Rightarrow> (('h, 'w) bot, copyTradeResult) prog" where
  "placeMarketBuy = placeMarket BUY"

definition placeMarketSell ::
  "('h, 'w) env \<Rightarrow> string \<Rightarrow> jsnum \<Rightarrow> placeOptions \<Rightarrow> (('h, 'w) bot, copyTradeResult) prog" where
  "placeMarketSell = placeMarket SELL"


section \<open>Sequences of requests to one instance\<close>

datatype request =
    CopyTrade copyTradeOptions
  | PlaceMarketBuy string jsnum placeOptions
  | PlaceMarketSell string jsnum placeOptions

definition serve :: "('h, 'w) env \<Rightarrow> request \<Rightarrow> (('h, 'w) bot, copyTradeResult) prog" where
  "serve env q =
     (case q of
        CopyTrade options \<Rightarrow> copyTrade env options
      | PlaceMarketBuy tokenId amt options \<Rightarrow> placeMarketBuy env tokenId amt options
      | PlaceMarketSell tokenId amt options \<Rightarrow> placeMarketSell env tokenId amt options)"

text \<open>
  The requests are served one after the other by the same instance; a request that throws
  does not stop the next one.
\<close>

fun serveAll ::
  "('h, 'w) env \<Rightarrow> request list \<Rightarrow> ('h, 'w) bot
    \<Rightarrow> (exn + copyTradeResult) list \<times> ('h, 'w) bot \<times> event list" where
  "serveAll env [] s = ([], s, [])"
| "serveAll env (q # qs) s =
     (case serve env q s of
        (r, s', evs) \<Rightarrow>
          (case serveAll env qs s' of (rs, s'', evs') \<Rightarrow> (r # rs, s'', evs @ evs')))"

section \<open>Kinds of events\<close>

fun isSimulateTx :: "event \<Rightarrow> bool" where
  "isSimulateTx (SimulateTx _ _ _) = True"
| "isSimulateTx _ = False"

fun isPostOrder :: "event \<Rightarrow> bool" where
  "isPostOrder (PostOrder _ _ _) = True"
| "isPostOrder _ = False"

text \<open>The market orders handed to the venue client for signing, in order.\<close>

fun createdOrder :: "event \<Rightarrow> userMarketOrder option" where
  "createdOrder (CreateMarketOrder mo _ _) = Some mo"
| "createdOrder _ = None"

definition ordersCreated :: "event list \<Rightarrow> userMarketOrder list" where
  "ordersCreated evs = List.map_filter createdOrder evs"

text \<open>The signed orders the venue client returned, in order.\<close>

fun signedOrderOf :: "event \<Rightarrow> signedOrder option" where
  "signedOrderOf (CreateMarketOrder _ _ (Inr so)) = Some so"
| "signedOrderOf _ = None"

definition ordersSigned :: "event list \<Rightarrow> signedOrder list" where
  "ordersSigned evs = List.map_filter signedOrderOf evs"

text \<open>What the balance check reported, in order.\<close>

fun balanceReport :: "event \<Rightarrow> balanceCheck option" where
  "balanceReport (ValidateBuyOrderBalance _ (Inr bc)) = Some bc"
| "balanceReport _ = None"

definition balanceReports :: "event list \<Rightarrow> balanceCheck list" where
  "balanceReports evs = List.map_filter balanceReport evs"

text \<open>The events from the start of the approval step on.\<close>

definition afterApproval :: "event list \<Rightarrow> event list" where
  "afterApproval evs = dropWhile (\<lambda>e. e \<noteq> ApproveTokensAfterBuy) evs"

text \<open>What the venue answered to each posted order, in order.\<close>

fun postOutcome :: "event \<Rightarrow> (exn + orderResponse option) option" where
  "postOutcome (PostOrder _ _ x) = Some x"
| "postOutcome _ = None"

definition postOutcomes :: "event list \<Rightarrow> (exn + orderResponse option) list" where
  "postOutcomes evs = List.map_filter postOutcome evs"

text \<open>The calls that change the ledger.\<close>

fun isHoldingsUpdate :: "event \<Rightarrow> bool" where
  "isHoldingsUpdate (AddHoldings _ _ _ _) = True"
| "isHoldingsUpdate (RemoveHoldings _ _ _ _) = True"
| "isHoldingsUpdate _ = False"

text \<open>The quantities the run asked the holdings module to add and to remove, in order.\<close>

fun addedQuantity :: "event \<Rightarrow> (string \<times> string \<times> jsnum) option" where
  "addedQuantity (AddHoldings m t q _) = Some (m, t, q)"
| "addedQuantity _ = None"

fun removedQuantity :: "event \<Rightarrow> (string \<times> string \<times> jsnum) option" where
  "removedQuantity (RemoveHoldings m t q _) = Some (m, t, q)"
| "removedQuantity _ = None"

definition quantitiesAdded :: "event list \<Rightarrow> (string \<times> string \<times> jsnum) list" where
  "quantitiesAdded evs = List.map_filter addedQuantity evs"

definition quantitiesRemoved :: "event list \<Rightarrow> (string \<times> string \<times> jsnum) list" where
  "quantitiesRemoved evs = List.map_filter removedQuantity evs"

text \<open>A call to the holdings module that threw.\<close>

fun updateThrew :: "event \<Rightarrow> bool" where
  "updateThrew (AddHoldings _ _ _ (Inl _)) = True"
| "updateThrew (RemoveHoldings _ _ _ (Inl _)) = True"
| "updateThrew _ = False"

definition holdingsUpdates :: "event list \<Rightarrow> event list" where
  "holdingsUpdates evs = filter isHoldingsUpdate evs"

text \<open>The signed orders posted to the venue, in order.\<close>

fun postedOrder :: "event \<Rightarrow> signedOrder option" where
  "postedOrder (PostOrder so _ _) = Some so"
| "postedOrder _ = None"

definition ordersPosted :: "event list \<Rightarrow> signedOrder list" where
  "ordersPosted evs = List.map_filter postedOrder evs"

text \<open>The events from the first post on.\<close>

definition fromFirstPost :: "event list \<Rightarrow> event list" where
  "fromFirstPost evs = dropWhile (\<lambda>e. \<not> isPostOrder e) evs"

text \<open>Every simulation of a signed order is followed by the post of that order.\<close>

fun postsAfterSim :: "event list \<Rightarrow> bool" where
  "postsAfterSim [] = True"
| "postsAfterSim (SimulateTx k so u # es) = (so \<in> set (ordersPosted es) \<and> postsAfterSim es)"
| "postsAfterSim (e # es) = postsAfterSim es"

text \<open>
  The probes of RPC endpoints, in order: the endpoint, how the race against the timer
  ended, and the milliseconds waited.
\<close>

fun probeOf :: "event \<Rightarrow> (string \<times> (exn + unit) \<times> nat) option" where
  "probeOf (GetNetwork u r t) = Some (u, r, t)"
| "probeOf _ = None"

definition probes :: "event list \<Rightarrow> (string \<times> (exn + unit) \<times> nat) list" where
  "probes evs = List.map_filter probeOf evs"

section \<open>When a fill counts\<close>

text \<open>
  The venue's answer counts as a fill for the program when it is a response with an order
  id that is not empty and a status that is absent (or otherwise falsy) or one of the
  three fill statuses.
\<close>

definition fillAccepted :: "exn + orderResponse option \<Rightarrow> bool" where
  "fillAccepted x =
     (case x of
        Inl _ \<Rightarrow> False
      | Inr None \<Rightarrow> False
      | Inr (Some r) \<Rightarrow>
          truthyStr (orderID r) \<and>
          (\<not> truthy (status r) \<or> status r = Str ''FILLED''
             \<or> status r = Str ''PARTIALLY_FILLED'' \<or> status r = Str ''MATCHED''))"



section \<open>The holdings ledger of the specification\<close>

text \<open>\<^verbatim>\<open>a + b\<close> and \<^verbatim>\<open>a - b\<close> on numbers.\<close>

fun js_add :: "jsnum \<Rightarrow> jsnum \<Rightarrow> jsnum" where
  "js_add NaN _ = NaN"
| "js_add _ NaN = NaN"
| "js_add (Fin x) (Fin y) = Fin (x + y)"
| "js_add PosInf NegInf = NaN"
| "js_add NegInf PosInf = NaN"
| "js_add PosInf _ = PosInf"
| "js_add NegInf _ = NegInf"
| "js_add (Fin _) b = b"

fun js_neg :: "jsnum \<Rightarrow> jsnum" where
  "js_neg NaN = NaN"
| "js_neg NegInf = PosInf"
| "js_neg (Fin x) = Fin (- x)"
| "js_neg PosInf = NegInf"

definition js_sub :: "jsnum \<Rightarrow> jsnum \<Rightarrow> jsnum" where
  "js_sub a b = js_add a (js_neg b)"

text \<open>
  Modelled from the spec: the Holdings Ledger (\<^verbatim>\<open>utils/holdings\<close> is not among the
  sources). It maps a (market, token) key to the quantity held; \<open>get\<close> of a key without
  an entry is 0; \<open>add\<close> creates or increments the entry; \<open>remove\<close> decrements it,
  clamps at 0 and deletes an entry that reaches 0.
\<close>

type_synonym holdings = "string \<times> string \<rightharpoonup> jsnum"

definition ledgerGet :: "holdings \<Rightarrow> string \<Rightarrow> string \<Rightarrow> jsnum" where
  "ledgerGet l m t = (case l (m, t) of None \<Rightarrow> Fin 0 | Some q \<Rightarrow> q)"

definition ledgerAdd :: "holdings \<Rightarrow> string \<Rightarrow> string \<Rightarrow> jsnum \<Rightarrow> holdings" where
  "ledgerAdd l m t q = l((m, t) \<mapsto> js_add (ledgerGet l m t) q)"

definition ledgerRemove :: "holdings \<Rightarrow> string \<Rightarrow> string \<Rightarrow> jsnum \<Rightarrow> holdings" where
  "ledgerRemove l m t q =
     (let left = js_sub (ledgerGet l m t) q in
      if js_gt left (Fin 0) then l((m, t) \<mapsto> left) else l((m, t) := None))"

text \<open>An environment uses this ledger when its holdings module is the three operations.\<close>

definition usesSpecLedger :: "(holdings, 'w) env \<Rightarrow> bool" where
  "usesSpecLedger env =
     (getHoldings env = (\<lambda>m t l. Inr (ledgerGet l m t))
      \<and> addHoldings env = (\<lambda>m t q l. (Inr (), ledgerAdd l m t q))
      \<and> removeHoldings env = (\<lambda>m t q l. (Inr (), ledgerRemove l m t q)))"

section \<open>A concrete environment\<close>

text \<open>
  An environment to run the program on: the ledger of the specification, a venue that
  fills every order, a chain that always answers, and builtins that know the few
  strings and numbers used in the examples.
\<close>

definition demoParseFloat :: "string \<Rightarrow> jsnum" where
  "demoParseFloat x =
     (if x = ''8.06'' then Fin (403 / 50) else if x = ''3'' then Fin 3
      else if x = ''0'' then Fin 0 else if x = ''137'' then Fin 137 else NaN)"

definition demoNumToString :: "jsnum \<Rightarrow> string" where
  "demoNumToString n =
     (if n = Fin 0 then ''0'' else if n = Fin 403 then ''403'' else if n = Fin 137 then ''137''
      else if n = NaN then ''NaN'' else ''5'')"

definition demoResponse :: orderResponse where
  "demoResponse =
     \<lparr>orderID = Some ''abc123'', status = Str ''MATCHED'', makingAmount = None,
      takingAmount = None, transactionsHashes = None\<rparr>"

definition demoEnv :: "(holdings, unit) env" where
  "demoEnv =
     \<lparr>parseFloat = demoParseFloat,
      parseInt = demoParseFloat,
      numToString = demoNumToString,
      PRIVATE_KEY = Some ''key'',
      CLOB_SIMULATE_URL = None,
      CHAIN_ID = None,
      RPC_URL = Some ''https://rpc.example'',
      RPC_TOKEN = None,
      NEG_RISK = None,
      getHoldings = (\<lambda>m t l. Inr (ledgerGet l m t)),
      addHoldings = (\<lambda>m t q l. (Inr (), ledgerAdd l m t q)),
      removeHoldings = (\<lambda>m t q l. (Inr (), ledgerRemove l m t q)),
      tradeToMarketOrder = (\<lambda>options.
        Inr \<lparr>tokenID = asset (trade options), orderSide = BUY, amount = Fin 5,
             orderKind = orderType options, orderPrice = None\<rparr>),
      getDefaultOrderOptions = (\<lambda>ts nr. Inr \<lparr>optTickSize = ts, optNegRisk = nr\<rparr>),
      validateBuyOrderBalance = (\<lambda>a w.
        (Inr \<lparr>valid = True, available = Fin 100, required = a\<rparr>, w)),
      displayWalletBalance = (\<lambda>w. (Inr (), w)),
      createMarketOrder = (\<lambda>mo oo w. (Inr ''signed'', w)),
      postOrder = (\<lambda>so ot w. (Inr (Some demoResponse), w)),
      updateBalanceAllowance = (\<lambda>w. (Inr (), w)),
      newWallet = (\<lambda>k. Inr \<lparr>walletAddress = ''0xA'', walletPrivateKey = optStr k\<rparr>),
      fetch = (\<lambda>u k tx w. (Inr \<lparr>ok = True, httpStatus = Fin 200\<rparr>, w)),
      getContractConfig = (\<lambda>c.
        Inr \<lparr>exchange = ''0xE'', negRiskExchange = ''0xN'', conditionalTokens = ''0xC''\<rparr>),
      getNetwork = (\<lambda>u w. (Settles 120 (Inr ()), w)),
      getGasPrice = (\<lambda>p w. (Inr 30, w)),
      isApprovedForAll = (\<lambda>p c a operator w. (Inr True, w)),
      setApprovalForAll = (\<lambda>p c operator b g w. (Inr ''0xT'', w)),
      txWait = (\<lambda>h w. (Inr (), w))\<rparr>"

definition demoTrade :: "string \<Rightarrow> trade" where
  "demoTrade sd =
     \<lparr>conditionId = ''m1'', asset = ''t1'', tradeSide = sd, price = Fin (31 / 50),
      size = Fin 50\<rparr>"

definition demoOptions :: "string \<Rightarrow> copyTradeOptions" where
  "demoOptions sd = \<lparr>trade = demoTrade sd, tickSize = None, negRisk = None, orderType = None\<rparr>"

definition demoBot :: "holdings \<Rightarrow> (holdings, unit) bot" where
  "demoBot l = \<lparr>simulateTxDone = False, ledger = l, world = ()\<rparr>"


section \<open>Environments of the examples\<close>

text \<open>A ledger that holds 8.06 tokens of the example's market.\<close>

definition heldLedger :: holdings where
  "heldLedger = Map.empty((''m1'', ''t1'') \<mapsto> Fin (403 / 50))"

text \<open>The environment whose venue answers every order with the given response.\<close>

definition answering :: "orderResponse \<Rightarrow> (holdings, unit) env" where
  "answering r = demoEnv\<lparr>postOrder := (\<lambda>so ot w. (Inr (Some r), w))\<rparr>"

text \<open>The events of a SELL of the example's tokens up to the venue's answer.\<close>

definition demoSellOrder :: userMarketOrder where
  "demoSellOrder =
     \<lparr>tokenID = ''t1'', orderSide = SELL, amount = Fin (403 / 50), orderKind = Some FAK,
      orderPrice = None\<rparr>"

definition demoSellEvents :: "orderResponse \<Rightarrow> event list" where
  "demoSellEvents r =
     [GetHoldings ''m1'' ''t1'' (Inr (Fin (403 / 50))),
      Log INFO ''Placing SELL market order: '',
      CreateMarketOrder demoSellOrder \<lparr>optTickSize = Some ''0.01'', optNegRisk = Some False\<rparr>
        (Inr ''signed''),
      SimulateTx \<lparr>address = ''0xA'', signer = ''key''\<rparr> ''signed''
        ''https://polymarket.clob.health'',
      Fetch ''https://polymarket.clob.health/api/simulate''
        \<lparr>address = ''0xA'', signer = ''key''\<rparr> ''signed''
        (Inr \<lparr>ok = True, httpStatus = Fin 200\<rparr>),
      Log INFO ''Tx simulate OK'',
      PostOrder ''signed'' FAK (Inr (Some r))]"

text \<open>A balance check that reports less than the order needs.\<close>

definition shortEnv :: "jsnum \<Rightarrow> (holdings, unit) env" where
  "shortEnv a =
     demoEnv\<lparr>validateBuyOrderBalance :=
               (\<lambda>amt w. (Inr \<lparr>valid = False, available = a, required = amt\<rparr>, w))\<rparr>"

text \<open>A chain that rejects the approval query, and a simulation endpoint that is down.\<close>

definition unapprovedEnv :: "orderResponse \<Rightarrow> (holdings, unit) env" where
  "unapprovedEnv r =
     (answering r)\<lparr>isApprovedForAll :=
                     (\<lambda>p c a operator w. (Inl (newError ''rpc down''), w))\<rparr>"

definition offlineEnv :: "(holdings, unit) env" where
  "offlineEnv = demoEnv\<lparr>fetch := (\<lambda>u k tx w. (Inl (newError ''fetch failed''), w))\<rparr>"

text \<open>
  RPC endpoints of which the first never answers, the second refuses and the others
  answer; and endpoints that all refuse.
\<close>

definition flakyRpcEnv :: "(holdings, unit) env" where
  "flakyRpcEnv =
     demoEnv\<lparr>getNetwork :=
               (\<lambda>u w. (if u = ''https://rpc.example'' then Never
                        else if u = ''https://polygon-rpc.com''
                        then Settles 50 (Inl (newError ''refused''))
                        else Settles 120 (Inr ()), w))\<rparr>"

definition deadRpcEnv :: "(holdings, unit) env" where
  "deadRpcEnv =
     demoEnv\<lparr>RPC_URL := None,
              getNetwork := (\<lambda>u w. (Settles 50 (Inl (newError ''refused'')), w))\<rparr>"

section \<open>Predicates on programs\<close>

text \<open>
  A bystander is a program that leaves the ledger and the simulation flag alone and
  neither creates, simulates nor posts an order, nor updates the holdings.
\<close>

definition bystander :: "(('h, 'w) bot, 'a) prog \<Rightarrow> bool" where
  "bystander m =
     (\<forall>s. case m s of
            (r, s', evs) \<Rightarrow>
              ledger s' = ledger s \<and> simulateTxDone s' = simulateTxDone s
              \<and> ordersCreated evs = [] \<and> postOutcomes evs = [] \<and> holdingsUpdates evs = []
              \<and> filter isSimulateTx evs = [] \<and> ApproveTokensAfterBuy \<notin> set evs
              \<and> balanceReports evs = [])"

text \<open>
  What a run from a state whose simulation flag is \<open>before\<close> to one whose flag is
  \<open>after\<close> must satisfy to simulate at most once: when the flag is set it stays set and
  nothing is simulated; at most one simulation runs, and the flag is set after a
  simulation and after a post; nothing is simulated from the first post on; every signed
  order is posted, and every simulated order is posted after its simulation.
\<close>

definition simFacts :: "bool \<Rightarrow> bool \<Rightarrow> event list \<Rightarrow> bool" where
  "simFacts before after evs =
     ((before \<longrightarrow> after \<and> filter isSimulateTx evs = [])
      \<and> length (filter isSimulateTx evs) \<le> 1
      \<and> (filter isSimulateTx evs \<noteq> [] \<or> filter isPostOrder evs \<noteq> [] \<longrightarrow> after)
      \<and> filter isSimulateTx (fromFirstPost evs) = []
      \<and> ordersPosted evs = ordersSigned evs
      \<and> postsAfterSim evs)"

definition simOnce :: "(('h, 'w) bot, 'a) prog \<Rightarrow> bool" where
  "simOnce m =
     (\<forall>s. case m s of
            (r, s', evs) \<Rightarrow> simFacts (simulateTxDone s) (simulateTxDone s') evs)"

text \<open>
  \<open>wp m Q s\<close>: the run of \<open>m\<close> from \<open>s\<close> ends with a result, a state and events that
  satisfy \<open>Q\<close>.
\<close>

definition wp ::
  "('s, 'a) prog \<Rightarrow> (exn + 'a \<Rightarrow> 's \<Rightarrow> event list \<Rightarrow> bool) \<Rightarrow> 's \<Rightarrow> bool" where
  "wp m Q s = (case m s of (r, s', evs) \<Rightarrow> Q r s' evs)"

section \<open>Unfolding programs\<close>

lemmas prog_defs =
  returnP_def throwP_def bindP_def catchP_def liftP_def logP_def emitP_def
  callW_def callH_def readH_def

lemmas demo_defs =
  demoOptions_def demoTrade_def demoEnv_def demoBot_def demoResponse_def
  demoParseFloat_def demoNumToString_def upperChar_def

lemmas run_defs =
  copyTrade_def copyTradeSell_def copyTradeSellSettle_def copyTradeBuy_def
  copyTradeBuyPlace_def copyTradeBuySettle_def createSimulateAndPost_def simulateOnce_def
  simulateTx_def
  copyTradeCatch_def approveTokensAfterBuy_def approveOperator_def getWorkingProvider_def
  getRpcCandidates_def probe_def raceTimeout_def prog_defs Let_def orderFailed_def
  statusOf_def truthy_def truthyStr_def truthyNum_def optStr_def orDefault_def
  uniqueInOrder_def setInsert_def setSimulateTxDone_def stripSlash_def postFailure_def
  ledgerGet_def ledgerAdd_def ledgerRemove_def js_le_def js_gt_def js_sub_def
  answering_def shortEnv_def unapprovedEnv_def offlineEnv_def flakyRpcEnv_def
  deadRpcEnv_def resultOf_def stateOf_def traceOf_def heldLedger_def demoSellOrder_def demoSellEvents_def
  tokensSold_def tokensReceived_def estimatedTokens_def

lemmas proj_defs = ordersCreated_def postOutcomes_def holdingsUpdates_def

lemma map_filter_append [simp]:
  "List.map_filter f (xs @ ys) = List.map_filter f xs @ List.map_filter f ys"
  by (simp add: List.map_filter_def)

text \<open>The long s is upper-cased to \<open>S\<close>, as in JavaScript.\<close>

lemma toUpperCase_long_s:
  "toUpperCase ([CHR 0xC5, CHR 0xBF] @ ''ell'') = ''SELL''"
  "toUpperCase ''Sell'' = ''SELL''"
  "toUpperCase ''buy'' = ''BUY''"
  by (simp_all add: upperChar_def)

lemma js_le_not_gt: "js_le a b \<Longrightarrow> \<not> js_gt a b"
  by (cases a; cases b) (auto simp: js_le_def js_gt_def)

section \<open>Projections of a trace\<close>

lemmas qty_defs = quantitiesAdded_def quantitiesRemoved_def ordersSigned_def balanceReports_def

lemma proj_nil [simp]:
  "ordersCreated [] = []" "postOutcomes [] = []" "holdingsUpdates [] = []"
  "quantitiesAdded [] = []" "quantitiesRemoved [] = []" "ordersSigned [] = []"
  "balanceReports [] = []"
  by (simp_all add: proj_defs qty_defs List.map_filter_simps)

lemma proj_append [simp]:
  "ordersCreated (xs @ ys) = ordersCreated xs @ ordersCreated ys"
  "postOutcomes (xs @ ys) = postOutcomes xs @ postOutcomes ys"
  "holdingsUpdates (xs @ ys) = holdingsUpdates xs @ holdingsUpdates ys"
  "quantitiesAdded (xs @ ys) = quantitiesAdded xs @ quantitiesAdded ys"
  "quantitiesRemoved (xs @ ys) = quantitiesRemoved xs @ quantitiesRemoved ys"
  "ordersSigned (xs @ ys) = ordersSigned xs @ ordersSigned ys"
  "balanceReports (xs @ ys) = balanceReports xs @ balanceReports ys"
  by (simp_all add: proj_defs qty_defs)

lemma proj_cons [simp]:
  "ordersCreated (e # evs) =
     (case createdOrder e of None \<Rightarrow> ordersCreated evs | Some mo \<Rightarrow> mo # ordersCreated evs)"
  "postOutcomes (e # evs) =
     (case postOutcome e of None \<Rightarrow> postOutcomes evs | Some x \<Rightarrow> x # postOutcomes evs)"
  "holdingsUpdates (e # evs) =
     (if isHoldingsUpdate e then e # holdingsUpdates evs else holdingsUpdates evs)"
  "quantitiesAdded (e # evs) =
     (case addedQuantity e of None \<Rightarrow> quantitiesAdded evs | Some x \<Rightarrow> x # quantitiesAdded evs)"
  "quantitiesRemoved (e # evs) =
     (case removedQuantity e of
        None \<Rightarrow> quantitiesRemoved evs
      | Some x \<Rightarrow> x # quantitiesRemoved evs)"
  "ordersSigned (e # evs) =
     (case signedOrderOf e of None \<Rightarrow> ordersSigned evs | Some so \<Rightarrow> so # ordersSigned evs)"
  "balanceReports (e # evs) =
     (case balanceReport e of
        None \<Rightarrow> balanceReports evs
      | Some bc \<Rightarrow> bc # balanceReports evs)"
  by (simp_all add: proj_defs qty_defs List.map_filter_simps split: option.split)

lemma holdingsUpdates_none [simp]:
  assumes "holdingsUpdates evs = []"
  shows "quantitiesAdded evs = []" and "quantitiesRemoved evs = []"
    and "filter updateThrew evs = []"
proof -
  have "quantitiesAdded evs = [] \<and> quantitiesRemoved evs = [] \<and> filter updateThrew evs = []"
    using assms
  proof (induction evs)
    case Nil
    then show ?case by simp
  next
    case (Cons e evs)
    then show ?case by (cases e) (auto split: if_splits)
  qed
  then show "quantitiesAdded evs = []" and "quantitiesRemoved evs = []"
    and "filter updateThrew evs = []"
    by simp_all
qed

lemma spec_ledger_sell_all:
  "js_gt (ledgerGet l m t) (Fin 0) \<Longrightarrow>
     ledgerGet (ledgerRemove l m t (ledgerGet l m t)) m t = Fin 0"
  by (cases "ledgerGet l m t")
     (auto simp: ledgerRemove_def ledgerGet_def js_sub_def js_gt_def Let_def)

section \<open>What the parts of a run emit\<close>

lemma simulateTx_run:
  "simulateTx env key tx url s = (r, s', evs) \<Longrightarrow>
     (\<exists>b. r = Inr b) \<and> ledger s' = ledger s \<and> simulateTxDone s' = simulateTxDone s
     \<and> ordersCreated evs = [] \<and> postOutcomes evs = [] \<and> holdingsUpdates evs = []
     \<and> filter isSimulateTx evs = [SimulateTx key tx url]"
  by (auto simp: simulateTx_def prog_defs Let_def proj_defs List.map_filter_simps
      split: prod.splits sum.splits if_splits)

lemma createSimulateAndPost_run:
  assumes "createSimulateAndPost env mo oo ot s = (r, s', evs)"
  shows "ledger s' = ledger s \<and> holdingsUpdates evs = [] \<and> ordersCreated evs = [mo]
    \<and> (case r of
          Inr resp \<Rightarrow> postOutcomes evs = [Inr resp]
        | Inl e \<Rightarrow>
            postOutcomes evs = [] \<or> (\<exists>e'. postOutcomes evs = [Inl e'] \<and> e = postFailure e'))"
  using assms
  by (clarsimp simp: createSimulateAndPost_def simulateOnce_def prog_defs Let_def setSimulateTxDone_def
        proj_defs List.map_filter_simps
      split: prod.splits sum.splits if_splits dest!: simulateTx_run)

lemma copyTradeCatch_run:
  "copyTradeCatch env e s = (r, s', evs) \<Longrightarrow>
     r = Inr (failure (errorText e)) \<and> ledger s' = ledger s
     \<and> simulateTxDone s' = simulateTxDone s
     \<and> ordersCreated evs = [] \<and> postOutcomes evs = [] \<and> holdingsUpdates evs = []"
  by (auto simp: copyTradeCatch_def prog_defs Let_def proj_defs List.map_filter_simps
      split: prod.splits sum.splits if_splits)

section \<open>Bystanders\<close>

lemma bystanderD:
  "bystander m \<Longrightarrow> m s = (r, s', evs) \<Longrightarrow>
     ledger s' = ledger s \<and> simulateTxDone s' = simulateTxDone s
     \<and> ordersCreated evs = [] \<and> postOutcomes evs = [] \<and> holdingsUpdates evs = []
     \<and> filter isSimulateTx evs = [] \<and> ApproveTokensAfterBuy \<notin> set evs
              \<and> balanceReports evs = []"
  unfolding bystander_def by (drule spec[of _ s]) simp

lemma bystander_bind [intro!]:
  assumes "bystander m" and "\<And>x. bystander (f x)"
  shows "bystander (bindP m f)"
  unfolding bystander_def
proof
  fix s
  obtain r s1 ev1 where m: "m s = (r, s1, ev1)" by (cases "m s") auto
  note h1 = bystanderD[OF assms(1) m]
  show "case bindP m f s of
          (r, s', evs) \<Rightarrow>
            ledger s' = ledger s \<and> simulateTxDone s' = simulateTxDone s
            \<and> ordersCreated evs = [] \<and> postOutcomes evs = [] \<and> holdingsUpdates evs = []
            \<and> filter isSimulateTx evs = [] \<and> ApproveTokensAfterBuy \<notin> set evs
              \<and> balanceReports evs = []"
  proof (cases r)
    case (Inl e)
    with m h1 show ?thesis by (simp add: bindP_def)
  next
    case (Inr x)
    obtain r2 s2 ev2 where f: "f x s1 = (r2, s2, ev2)" by (cases "f x s1") auto
    note h2 = bystanderD[OF assms(2) f]
    from m Inr f h1 h2 show ?thesis by (simp add: bindP_def proj_defs)
  qed
qed

lemma bystander_catch [intro!]:
  assumes "bystander m" and "\<And>e. bystander (h e)"
  shows "bystander (catchP m h)"
  unfolding bystander_def
proof
  fix s
  obtain r s1 ev1 where m: "m s = (r, s1, ev1)" by (cases "m s") auto
  note h1 = bystanderD[OF assms(1) m]
  show "case catchP m h s of
          (r, s', evs) \<Rightarrow>
            ledger s' = ledger s \<and> simulateTxDone s' = simulateTxDone s
            \<and> ordersCreated evs = [] \<and> postOutcomes evs = [] \<and> holdingsUpdates evs = []
            \<and> filter isSimulateTx evs = [] \<and> ApproveTokensAfterBuy \<notin> set evs
              \<and> balanceReports evs = []"
  proof (cases r)
    case (Inr x)
    with m h1 show ?thesis by (simp add: catchP_def)
  next
    case (Inl e)
    obtain r2 s2 ev2 where f: "h e s1 = (r2, s2, ev2)" by (cases "h e s1") auto
    note h2 = bystanderD[OF assms(2) f]
    from m Inl f h1 h2 show ?thesis by (simp add: catchP_def proj_defs)
  qed
qed

lemma bystander_basic [intro!, simp]:
  "bystander (returnP x)" "bystander (throwP e)" "bystander (liftP v)" "bystander (logP l t)"
  by (simp_all add: bystander_def prog_defs proj_defs List.map_filter_simps)

lemma bystander_if [intro!]:
  "(c \<Longrightarrow> bystander a) \<Longrightarrow> (\<not> c \<Longrightarrow> bystander b) \<Longrightarrow> bystander (if c then a else b)"
  by simp

lemma bystander_callW:
  "(\<And>r. createdOrder (ev r) = None \<and> postOutcome (ev r) = None
         \<and> \<not> isHoldingsUpdate (ev r) \<and> \<not> isSimulateTx (ev r)
         \<and> ApproveTokensAfterBuy \<noteq> ev r \<and> balanceReport (ev r) = None)
    \<Longrightarrow> bystander (callW f ev)"
  by (simp add: bystander_def prog_defs proj_defs List.map_filter_simps split: prod.splits)

lemma bystander_probe [intro!, simp]: "bystander (probe env u)"
  by (simp add: bystander_def probe_def proj_defs List.map_filter_simps split: prod.splits)

lemma bystander_tryCandidates [intro!, simp]: "bystander (tryCandidates env cs errs)"
  by (induction cs arbitrary: errs) auto

lemma bystander_getWorkingProvider [intro!, simp]: "bystander (getWorkingProvider env c)"
  unfolding getWorkingProvider_def by (auto split: sum.split)

lemma bystander_approveOperator [intro!, simp]:
  "bystander (approveOperator env p c a operator g l)"
  unfolding approveOperator_def by (auto intro!: bystander_callW)

lemma bystander_approveTokensAfterBuy [intro!, simp]: "bystander (approveTokensAfterBuy env)"
  unfolding approveTokensAfterBuy_def Let_def by (auto intro!: bystander_callW)

lemma approveTokensAfterBuy_run:
  "approveTokensAfterBuy env s = (r, s', evs) \<Longrightarrow>
     ledger s' = ledger s \<and> simulateTxDone s' = simulateTxDone s
     \<and> ordersCreated evs = [] \<and> postOutcomes evs = [] \<and> holdingsUpdates evs = []
     \<and> filter isSimulateTx evs = [] \<and> ApproveTokensAfterBuy \<notin> set evs
              \<and> balanceReports evs = []"
  by (rule bystanderD[OF bystander_approveTokensAfterBuy])

section \<open>Weakest preconditions\<close>

lemma wpD: "wp m Q s \<Longrightarrow> m s = (r, s', evs) \<Longrightarrow> Q r s' evs"
  by (simp add: wp_def)

lemma wp_basic [simp]:
  "wp (returnP x) Q s = Q (Inr x) s []"
  "wp (throwP e) Q s = Q (Inl e) s []"
  "wp (liftP v) Q s = Q v s []"
  "wp (logP l t) Qu s = Qu (Inr ()) s [Log l t]"
  "wp (emitP ev) Qu s = Qu (Inr ()) s [ev]"
  by (simp_all add: wp_def prog_defs)

lemma wp_bind [simp]:
  "wp (bindP m f) Q s =
     wp m (\<lambda>r s1 ev1.
             case r of
               Inl e \<Rightarrow> Q (Inl e) s1 ev1
             | Inr x \<Rightarrow> wp (f x) (\<lambda>r2 s2 ev2. Q r2 s2 (ev1 @ ev2)) s1) s"
  by (simp add: wp_def bindP_def split: prod.split sum.split)

lemma wp_catch [simp]:
  "wp (catchP m h) Q s =
     wp m (\<lambda>r s1 ev1.
             case r of
               Inr x \<Rightarrow> Q (Inr x) s1 ev1
             | Inl e \<Rightarrow> wp (h e) (\<lambda>r2 s2 ev2. Q r2 s2 (ev1 @ ev2)) s1) s"
  by (simp add: wp_def catchP_def split: prod.split sum.split)

lemma wp_callW [simp]:
  "wp (callW g ev) Q s = (\<forall>v w. g (world s) = (v, w) \<longrightarrow> Q v (s\<lparr>world := w\<rparr>) [ev v])"
  by (auto simp: wp_def callW_def split: prod.split)

lemma wp_callH [simp]:
  "wp (callH g ev) Q s = (\<forall>v h. g (ledger s) = (v, h) \<longrightarrow> Q v (s\<lparr>ledger := h\<rparr>) [ev v])"
  by (auto simp: wp_def callH_def split: prod.split)

lemma wp_readH [simp]:
  "wp (readH g ev) Q s = Q (g (ledger s)) s [ev (g (ledger s))]"
  by (simp add: wp_def readH_def)

lemma wp_if [simp]:
  "wp (if c then a else b) Q s = (if c then wp a Q s else wp b Q s)"
  by simp

lemma ordersCreated_none:
  "ordersCreated xs = [] \<Longrightarrow> ordersSigned xs = []"
proof (induction xs)
  case Nil
  then show ?case by simp
next
  case (Cons e xs)
  then show ?case by (cases e) (auto split: sum.splits)
qed

lemma wp_bystander:
  assumes "bystander m"
    and "\<And>r s' evs.
           ledger s' = ledger s \<Longrightarrow> simulateTxDone s' = simulateTxDone s \<Longrightarrow>
           ordersCreated evs = [] \<Longrightarrow> ordersSigned evs = [] \<Longrightarrow> postOutcomes evs = [] \<Longrightarrow>
           holdingsUpdates evs = [] \<Longrightarrow> ApproveTokensAfterBuy \<notin> set evs \<Longrightarrow>
           balanceReports evs = [] \<Longrightarrow> Q r s' evs"
  shows "wp m Q s"
proof -
  obtain r s' evs where m: "m s = (r, s', evs)" by (cases "m s") auto
  note b = bystanderD[OF assms(1) m]
  from b have "ordersSigned evs = []" by (simp add: ordersCreated_none)
  with b assms(2)[of s' evs r] m show ?thesis by (simp add: wp_def)
qed

lemmas wp_approveTokensAfterBuy = wp_bystander[OF bystander_approveTokensAfterBuy]

lemma bystander_copyTradeCatch [intro!, simp]: "bystander (copyTradeCatch env e)"
  unfolding copyTradeCatch_def Let_def by (auto intro!: bystander_callW)

lemma copyTradeCatch_result:
  "wp (copyTradeCatch env e) (\<lambda>r s' evs. r = Inr (failure (errorText e))) s"
  unfolding copyTradeCatch_def Let_def by (simp split: sum.split)

text \<open>
  The rules below read: to show that a run of the program satisfies \<open>Q\<close>, show \<open>Q\<close> in
  each of the ways the run can end, with what is known of the state and the events then.
\<close>

lemma wp_copyTradeCatch:
  assumes "\<And>s' evs.
           ledger s' = ledger s \<Longrightarrow> simulateTxDone s' = simulateTxDone s \<Longrightarrow>
           ordersCreated evs = [] \<Longrightarrow> ordersSigned evs = [] \<Longrightarrow> postOutcomes evs = [] \<Longrightarrow>
           holdingsUpdates evs = [] \<Longrightarrow> ApproveTokensAfterBuy \<notin> set evs \<Longrightarrow>
           balanceReports evs = [] \<Longrightarrow> Q (Inr (failure (errorText e))) s' evs"
  shows "wp (copyTradeCatch env e) Q s"
proof -
  obtain r s' evs where m: "copyTradeCatch env e s = (r, s', evs)"
    by (cases "copyTradeCatch env e s") auto
  from wpD[OF copyTradeCatch_result m] have r: "r = Inr (failure (errorText e))" .
  have "wp (copyTradeCatch env e) (\<lambda>r' s' evs. r' = r \<longrightarrow> Q r' s' evs) s"
    by (rule wp_bystander[OF bystander_copyTradeCatch]) (auto simp: r intro: assms)
  with m show ?thesis by (simp add: wp_def)
qed

lemma wp_flag_if:
  "wp (\<lambda>s. if c s then a s else b s) Q s = (if c s then wp a Q s else wp b Q s)"
  by (simp add: wp_def)

lemma wp_setSimulateTxDone [simp]:
  "wp setSimulateTxDone Qu s = Qu (Inr ()) (s\<lparr>simulateTxDone := True\<rparr>) []"
  by (simp add: wp_def setSimulateTxDone_def)

lemma wp_simulateOnce:
  assumes "\<And>s' evs.
           ledger s' = ledger s \<Longrightarrow>
           ordersCreated evs = [] \<Longrightarrow> ordersSigned evs = [] \<Longrightarrow> postOutcomes evs = [] \<Longrightarrow>
           holdingsUpdates evs = [] \<Longrightarrow> ApproveTokensAfterBuy \<notin> set evs \<Longrightarrow>
           balanceReports evs = [] \<Longrightarrow> Q (Inr ()) s' evs"
  shows "wp (simulateOnce env so) Q s"
  unfolding simulateOnce_def simulateTx_def Let_def
  by (auto simp: wp_flag_if split: sum.split intro!: assms)

lemma wp_createSimulateAndPost:
  assumes "\<And>e s' evs.
           ledger s' = ledger s \<Longrightarrow> ordersCreated evs = [mo] \<Longrightarrow> ordersSigned evs = [] \<Longrightarrow>
           postOutcomes evs = [] \<Longrightarrow> holdingsUpdates evs = [] \<Longrightarrow>
           ApproveTokensAfterBuy \<notin> set evs \<Longrightarrow> balanceReports evs = [] \<Longrightarrow>
           Q (Inl e) s' evs"
    and "\<And>e so s' evs.
           ledger s' = ledger s \<Longrightarrow> ordersCreated evs = [mo] \<Longrightarrow> ordersSigned evs = [so] \<Longrightarrow>
           postOutcomes evs = [Inl e] \<Longrightarrow> holdingsUpdates evs = [] \<Longrightarrow>
           ApproveTokensAfterBuy \<notin> set evs \<Longrightarrow> balanceReports evs = [] \<Longrightarrow>
           Q (Inl (postFailure e)) s' evs"
    and "\<And>response so s' evs.
           ledger s' = ledger s \<Longrightarrow> ordersCreated evs = [mo] \<Longrightarrow> ordersSigned evs = [so] \<Longrightarrow>
           postOutcomes evs = [Inr response] \<Longrightarrow> holdingsUpdates evs = [] \<Longrightarrow>
           ApproveTokensAfterBuy \<notin> set evs \<Longrightarrow> balanceReports evs = [] \<Longrightarrow>
           Q (Inr response) s' evs"
  shows "wp (createSimulateAndPost env mo oo ot) Q s"
  unfolding createSimulateAndPost_def
  by (auto split: sum.split intro!: wp_simulateOnce assms)

lemma orderFailed_None [simp]: "orderFailed None"
  by (simp add: orderFailed_def)

lemma creditedTokens_cases:
  "js_gt (tokensReceived env r) (Fin 0) \<Longrightarrow> creditedTokens env t mo r = [tokensReceived env r]"
  "\<not> js_gt (tokensReceived env r) (Fin 0) \<Longrightarrow> js_gt (estimatedTokens t mo) (Fin 0) \<Longrightarrow>
     creditedTokens env t mo r = [estimatedTokens t mo]"
  "\<not> js_gt (tokensReceived env r) (Fin 0) \<Longrightarrow> \<not> js_gt (estimatedTokens t mo) (Fin 0) \<Longrightarrow>
     creditedTokens env t mo r = []"
  by (simp_all add: creditedTokens_def)

lemma afterApproval_simps [simp]:
  "afterApproval [] = []"
  "afterApproval (e # evs) = (if e = ApproveTokensAfterBuy then e # evs else afterApproval evs)"
  by (simp_all add: afterApproval_def)

lemma afterApproval_append:
  "ApproveTokensAfterBuy \<notin> set xs \<Longrightarrow> afterApproval (xs @ ys) = afterApproval ys"
  by (induction xs) auto

section \<open>The ways a run of \<^verbatim>\<open>copyTrade\<close> can end\<close>

text \<open>
  One rule for each part of \<^verbatim>\<open>copyTrade\<close>, and one for each of its two branches: a
  property holds of every run when it holds in each of the ways the run can end. The
  events of what ran before a part are a function \<open>ext\<close> of the events of the part.
\<close>

lemma wp_copyTradeBuySettle:
  assumes failed: "orderFailed response \<Longrightarrow>
             Q (Inr (failure (describeOrderFailure env (statusOf response)))) s []"
    and threw: "\<And>r q e l.
           response = Some r \<Longrightarrow> \<not> orderFailed response \<Longrightarrow>
           creditedTokens env t mo r = [q] \<Longrightarrow>
           addHoldings env m tk q (ledger s) = (Inl e, l) \<Longrightarrow>
           Q (Inl e) (s\<lparr>ledger := l\<rparr>) [AddHoldings m tk q (Inl e)]"
    and credited: "\<And>r q l s' evs.
           response = Some r \<Longrightarrow> \<not> orderFailed response \<Longrightarrow>
           creditedTokens env t mo r = [q] \<Longrightarrow>
           addHoldings env m tk q (ledger s) = (Inr (), l) \<Longrightarrow>
           ledger s' = l \<Longrightarrow>
           holdingsUpdates evs = [AddHoldings m tk q (Inr ())] \<Longrightarrow>
           holdingsUpdates (afterApproval evs) = [] \<Longrightarrow>
           ApproveTokensAfterBuy \<in> set evs \<Longrightarrow>
           ordersCreated evs = [] \<Longrightarrow> ordersSigned evs = [] \<Longrightarrow> postOutcomes evs = [] \<Longrightarrow>
           balanceReports evs = [] \<Longrightarrow>
           js_gt (tokensReceived env r) (Fin 0)
             \<or> Log WARN ''Using estimated token amount: '' \<in> set evs \<Longrightarrow>
           Q (Inr (filled r mo)) s' evs"
    and uncredited: "\<And>r s' evs.
           response = Some r \<Longrightarrow> \<not> orderFailed response \<Longrightarrow>
           creditedTokens env t mo r = [] \<Longrightarrow>
           ledger s' = ledger s \<Longrightarrow>
           holdingsUpdates evs = [] \<Longrightarrow>
           ApproveTokensAfterBuy \<in> set evs \<Longrightarrow>
           ordersCreated evs = [] \<Longrightarrow> ordersSigned evs = [] \<Longrightarrow> postOutcomes evs = [] \<Longrightarrow>
           balanceReports evs = [] \<Longrightarrow>
           Log WARN ''No tokens received and cannot estimate - not adding to holdings''
             \<in> set evs \<Longrightarrow>
           Q (Inr (filled r mo)) s' evs"
  shows "wp (copyTradeBuySettle env t m tk mo response) Q s"
proof (cases response)
  case None
  with failed show ?thesis by (simp add: copyTradeBuySettle_def)
next
  case (Some r)
  show ?thesis
  proof (cases "orderFailed response")
    case True
    with Some failed show ?thesis by (simp add: copyTradeBuySettle_def)
  next
    case False
    consider (rec) "js_gt (tokensReceived env r) (Fin 0)"
      | (est) "\<not> js_gt (tokensReceived env r) (Fin 0)" "js_gt (estimatedTokens t mo) (Fin 0)"
      | (none) "\<not> js_gt (tokensReceived env r) (Fin 0)"
          "\<not> js_gt (estimatedTokens t mo) (Fin 0)"
      by blast
    then show ?thesis
    proof cases
      case rec
      note c = creditedTokens_cases(1)[OF rec, of t mo]
      from Some False rec show ?thesis
        unfolding copyTradeBuySettle_def
        apply (simp split: sum.split)
        apply (intro allI impI conjI)
         apply (rule threw[OF _ _ c]; simp)
        apply (rule wp_approveTokensAfterBuy)
        apply (intro conjI impI allI)
         apply (rule credited[OF _ _ c]; simp)
        apply (rule credited[OF _ _ c]; simp)
        done
    next
      case est
      note c = creditedTokens_cases(2)[OF est]
      from Some False est show ?thesis
        unfolding copyTradeBuySettle_def
        apply (simp split: sum.split)
        apply (intro allI impI conjI)
         apply (rule threw[OF _ _ c]; simp)
        apply (rule wp_approveTokensAfterBuy)
        apply (intro conjI impI allI)
         apply (rule credited[OF _ _ c]; simp)
        apply (rule credited[OF _ _ c]; simp)
        done
    next
      case none
      note c = creditedTokens_cases(3)[OF none]
      from Some False none show ?thesis
        unfolding copyTradeBuySettle_def
        by (auto split: sum.split intro!: wp_approveTokensAfterBuy uncredited[OF _ _ c])
    qed
  qed
qed

lemma wp_copyTradeBuyPlace:
  assumes noOptions: "\<And>e. getDefaultOrderOptions env (Some ts) (Some nr) = Inl e \<Longrightarrow>
             Q (Inl e) s []"
    and noOrder: "\<And>e s' evs.
           ledger s' = ledger s \<Longrightarrow> ordersCreated evs = [mo] \<Longrightarrow> ordersSigned evs = [] \<Longrightarrow>
           postOutcomes evs = [] \<Longrightarrow> holdingsUpdates evs = [] \<Longrightarrow>
           ApproveTokensAfterBuy \<notin> set evs \<Longrightarrow> balanceReports evs = [] \<Longrightarrow>
           Q (Inl e) s' evs"
    and postThrew: "\<And>e so s' evs.
           ledger s' = ledger s \<Longrightarrow> ordersCreated evs = [mo] \<Longrightarrow> ordersSigned evs = [so] \<Longrightarrow>
           postOutcomes evs = [Inl e] \<Longrightarrow> holdingsUpdates evs = [] \<Longrightarrow>
           ApproveTokensAfterBuy \<notin> set evs \<Longrightarrow> balanceReports evs = [] \<Longrightarrow>
           Q (Inl (postFailure e)) s' evs"
    and rejected: "\<And>response so s' evs.
           orderFailed response \<Longrightarrow>
           ledger s' = ledger s \<Longrightarrow> ordersCreated evs = [mo] \<Longrightarrow> ordersSigned evs = [so] \<Longrightarrow>
           postOutcomes evs = [Inr response] \<Longrightarrow> holdingsUpdates evs = [] \<Longrightarrow>
           ApproveTokensAfterBuy \<notin> set evs \<Longrightarrow> balanceReports evs = [] \<Longrightarrow>
           Q (Inr (failure (describeOrderFailure env (statusOf response)))) s' evs"
    and creditThrew: "\<And>r q e so s' evs.
           \<not> orderFailed (Some r) \<Longrightarrow> creditedTokens env t mo r = [q] \<Longrightarrow>
           fst (addHoldings env m tk q (ledger s)) = Inl e \<Longrightarrow>
           ledger s' = snd (addHoldings env m tk q (ledger s)) \<Longrightarrow>
           ordersCreated evs = [mo] \<Longrightarrow> ordersSigned evs = [so] \<Longrightarrow>
           postOutcomes evs = [Inr (Some r)] \<Longrightarrow>
           holdingsUpdates evs = [AddHoldings m tk q (Inl e)] \<Longrightarrow>
           ApproveTokensAfterBuy \<notin> set evs \<Longrightarrow> balanceReports evs = [] \<Longrightarrow>
           Q (Inl e) s' evs"
    and credited: "\<And>r q so s' evs.
           \<not> orderFailed (Some r) \<Longrightarrow> creditedTokens env t mo r = [q] \<Longrightarrow>
           fst (addHoldings env m tk q (ledger s)) = Inr () \<Longrightarrow>
           ledger s' = snd (addHoldings env m tk q (ledger s)) \<Longrightarrow>
           ordersCreated evs = [mo] \<Longrightarrow> ordersSigned evs = [so] \<Longrightarrow>
           postOutcomes evs = [Inr (Some r)] \<Longrightarrow>
           holdingsUpdates evs = [AddHoldings m tk q (Inr ())] \<Longrightarrow>
           holdingsUpdates (afterApproval evs) = [] \<Longrightarrow>
           ApproveTokensAfterBuy \<in> set evs \<Longrightarrow> balanceReports evs = [] \<Longrightarrow>
           js_gt (tokensReceived env r) (Fin 0)
             \<or> Log WARN ''Using estimated token amount: '' \<in> set evs \<Longrightarrow>
           Q (Inr (filled r mo)) s' evs"
    and uncredited: "\<And>r so s' evs.
           \<not> orderFailed (Some r) \<Longrightarrow> creditedTokens env t mo r = [] \<Longrightarrow>
           ledger s' = ledger s \<Longrightarrow>
           ordersCreated evs = [mo] \<Longrightarrow> ordersSigned evs = [so] \<Longrightarrow>
           postOutcomes evs = [Inr (Some r)] \<Longrightarrow>
           holdingsUpdates evs = [] \<Longrightarrow>
           ApproveTokensAfterBuy \<in> set evs \<Longrightarrow> balanceReports evs = [] \<Longrightarrow>
           Log WARN ''No tokens received and cannot estimate - not adding to holdings''
             \<in> set evs \<Longrightarrow>
           Q (Inr (filled r mo)) s' evs"
  shows "wp (copyTradeBuyPlace env t m tk ts nr ot mo) Q s"
  unfolding copyTradeBuyPlace_def
  apply (simp split: sum.split)
  apply (intro allI impI conjI)
   apply (erule noOptions)
  apply (rule wp_createSimulateAndPost; simp)
    apply (rule noOrder; simp)
   apply (rule postThrew; simp)
  apply (rule wp_copyTradeBuySettle; simp?)
     apply (rule rejected; simp)
    apply (rule creditThrew; simp)
   apply (rule credited; auto simp: afterApproval_append)
  apply (rule uncredited; simp)
  done


lemma wp_copyTradeBuy:
  assumes early: "\<And>e s' evs.
           ledger s' = ledger s \<Longrightarrow> simulateTxDone s' = simulateTxDone s \<Longrightarrow>
           ordersCreated evs = [] \<Longrightarrow> ordersSigned evs = [] \<Longrightarrow>
           postOutcomes evs = [] \<Longrightarrow> holdingsUpdates evs = [] \<Longrightarrow>
           ApproveTokensAfterBuy \<notin> set evs \<Longrightarrow> balanceReports evs = [] \<Longrightarrow>
           Q (Inl e) s' evs"
    and broke: "\<And>bc msg s' evs.
           \<not> valid bc \<Longrightarrow> js_le (available bc) (Fin 0) \<Longrightarrow>
           msg = ''Insufficient USDC balance. Available: '' @ numToString env (available bc) \<Longrightarrow>
           ledger s' = ledger s \<Longrightarrow> simulateTxDone s' = simulateTxDone s \<Longrightarrow>
           ordersCreated evs = [] \<Longrightarrow> ordersSigned evs = [] \<Longrightarrow>
           postOutcomes evs = [] \<Longrightarrow> holdingsUpdates evs = [] \<Longrightarrow>
           ApproveTokensAfterBuy \<notin> set evs \<Longrightarrow>
           balanceReports evs = [bc] \<Longrightarrow>
           Q (Inr (failure msg)) s' evs"
    and placed: "\<And>mo bc mo' ext s1.
           (valid bc \<Longrightarrow> mo' = mo) \<Longrightarrow>
           (\<not> valid bc \<Longrightarrow> mo' = mo\<lparr>amount := available bc\<rparr>) \<Longrightarrow>
           (\<not> valid bc \<Longrightarrow> \<not> js_le (available bc) (Fin 0)) \<Longrightarrow>
           tradeToMarketOrder env options = Inr mo \<Longrightarrow>
           ledger s1 = ledger s \<Longrightarrow> simulateTxDone s1 = simulateTxDone s \<Longrightarrow>
           (\<And>evs. ordersCreated (ext evs) = ordersCreated evs) \<Longrightarrow>
           (\<And>evs. ordersSigned (ext evs) = ordersSigned evs) \<Longrightarrow>
           (\<And>evs. postOutcomes (ext evs) = postOutcomes evs) \<Longrightarrow>
           (\<And>evs. holdingsUpdates (ext evs) = holdingsUpdates evs) \<Longrightarrow>
           (\<And>evs. afterApproval (ext evs) = afterApproval evs) \<Longrightarrow>
           (\<And>evs. ApproveTokensAfterBuy \<in> set (ext evs)
                     \<longleftrightarrow> ApproveTokensAfterBuy \<in> set evs) \<Longrightarrow>
           (\<And>e evs. e \<in> set evs \<Longrightarrow> e \<in> set (ext evs)) \<Longrightarrow>
           (\<And>evs. balanceReports (ext evs) = bc # balanceReports evs) \<Longrightarrow>
           wp (copyTradeBuyPlace env (trade options) m tk ts nr ot mo')
              (\<lambda>r s' evs. Q r s' (ext evs)) s1"
  shows "wp (copyTradeBuy env options m tk ts nr ot) Q s"
  unfolding copyTradeBuy_def
  apply (simp split: sum.split)
  apply (intro allI impI conjI)
  apply ((rule early; simp; fail) | (rule broke; simp; fail) | (rule placed; simp; fail))+
  done


lemma wp_copyTrade_buy:
  assumes side: "toUpperCase (tradeSide (trade options)) \<noteq> ''SELL''"
    and early: "\<And>e s' evs.
           ledger s' = ledger s \<Longrightarrow>
           ordersCreated evs = [] \<Longrightarrow> ordersSigned evs = [] \<Longrightarrow>
           postOutcomes evs = [] \<Longrightarrow> holdingsUpdates evs = [] \<Longrightarrow>
           ApproveTokensAfterBuy \<notin> set evs \<Longrightarrow> balanceReports evs = [] \<Longrightarrow>
           Q (Inr (failure (errorText e))) s' evs"
    and broke: "\<And>bc msg s' evs.
           \<not> valid bc \<Longrightarrow> js_le (available bc) (Fin 0) \<Longrightarrow>
           msg = ''Insufficient USDC balance. Available: '' @ numToString env (available bc) \<Longrightarrow>
           ledger s' = ledger s \<Longrightarrow>
           ordersCreated evs = [] \<Longrightarrow> ordersSigned evs = [] \<Longrightarrow>
           postOutcomes evs = [] \<Longrightarrow> holdingsUpdates evs = [] \<Longrightarrow>
           ApproveTokensAfterBuy \<notin> set evs \<Longrightarrow>
           balanceReports evs = [bc] \<Longrightarrow>
           Q (Inr (failure msg)) s' evs"
    and noOptions: "\<And>mo bc e s' evs.
           (\<not> valid bc \<Longrightarrow> \<not> js_le (available bc) (Fin 0)) \<Longrightarrow>
           getDefaultOrderOptions env (Some (orDefault (tickSize options) ''0.01''))
             (Some (orDefault (negRisk options) False)) = Inl e \<Longrightarrow>
           ledger s' = ledger s \<Longrightarrow>
           ordersCreated evs = [] \<Longrightarrow> ordersSigned evs = [] \<Longrightarrow>
           postOutcomes evs = [] \<Longrightarrow> holdingsUpdates evs = [] \<Longrightarrow>
           ApproveTokensAfterBuy \<notin> set evs \<Longrightarrow>
           tradeToMarketOrder env options = Inr mo \<Longrightarrow>
           balanceReports evs = [bc] \<Longrightarrow>
           Q (Inr (failure (errorText e))) s' evs"
    and noOrder: "\<And>mo bc mo' e s' evs.
           (valid bc \<Longrightarrow> mo' = mo) \<Longrightarrow>
           (\<not> valid bc \<Longrightarrow> mo' = mo\<lparr>amount := available bc\<rparr>) \<Longrightarrow>
           (\<not> valid bc \<Longrightarrow> \<not> js_le (available bc) (Fin 0)) \<Longrightarrow>
           ledger s' = ledger s \<Longrightarrow>
           ordersSigned evs = [] \<Longrightarrow>
           postOutcomes evs = [] \<Longrightarrow> holdingsUpdates evs = [] \<Longrightarrow>
           ApproveTokensAfterBuy \<notin> set evs \<Longrightarrow>
           ordersCreated evs = [mo'] \<Longrightarrow>
           tradeToMarketOrder env options = Inr mo \<Longrightarrow>
           balanceReports evs = [bc] \<Longrightarrow>
           Q (Inr (failure (errorText e))) s' evs"
    and postThrew: "\<And>mo bc mo' e so s' evs.
           (valid bc \<Longrightarrow> mo' = mo) \<Longrightarrow>
           (\<not> valid bc \<Longrightarrow> mo' = mo\<lparr>amount := available bc\<rparr>) \<Longrightarrow>
           (\<not> valid bc \<Longrightarrow> \<not> js_le (available bc) (Fin 0)) \<Longrightarrow>
           ledger s' = ledger s \<Longrightarrow>
           ordersSigned evs = [so] \<Longrightarrow>
           postOutcomes evs = [Inl e] \<Longrightarrow> holdingsUpdates evs = [] \<Longrightarrow>
           ApproveTokensAfterBuy \<notin> set evs \<Longrightarrow>
           ordersCreated evs = [mo'] \<Longrightarrow>
           tradeToMarketOrder env options = Inr mo \<Longrightarrow>
           balanceReports evs = [bc] \<Longrightarrow>
           Q (Inr (failure (errorText (postFailure e)))) s' evs"
    and rejected: "\<And>mo bc mo' response so s' evs.
           (valid bc \<Longrightarrow> mo' = mo) \<Longrightarrow>
           (\<not> valid bc \<Longrightarrow> mo' = mo\<lparr>amount := available bc\<rparr>) \<Longrightarrow>
           (\<not> valid bc \<Longrightarrow> \<not> js_le (available bc) (Fin 0)) \<Longrightarrow>
           orderFailed response \<Longrightarrow>
           ledger s' = ledger s \<Longrightarrow>
           ordersSigned evs = [so] \<Longrightarrow>
           postOutcomes evs = [Inr response] \<Longrightarrow> holdingsUpdates evs = [] \<Longrightarrow>
           ApproveTokensAfterBuy \<notin> set evs \<Longrightarrow>
           ordersCreated evs = [mo'] \<Longrightarrow>
           tradeToMarketOrder env options = Inr mo \<Longrightarrow>
           balanceReports evs = [bc] \<Longrightarrow>
           Q (Inr (failure (describeOrderFailure env (statusOf response)))) s' evs"
    and creditThrew: "\<And>mo bc mo' r q e so s' evs.
           (valid bc \<Longrightarrow> mo' = mo) \<Longrightarrow>
           (\<not> valid bc \<Longrightarrow> mo' = mo\<lparr>amount := available bc\<rparr>) \<Longrightarrow>
           (\<not> valid bc \<Longrightarrow> \<not> js_le (available bc) (Fin 0)) \<Longrightarrow>
           \<not> orderFailed (Some r) \<Longrightarrow>
           creditedTokens env (trade options) mo' r = [q] \<Longrightarrow>
           fst (addHoldings env (conditionId (trade options)) (asset (trade options)) q (ledger s)) = Inl e \<Longrightarrow>
           ledger s' = snd (addHoldings env (conditionId (trade options)) (asset (trade options)) q (ledger s)) \<Longrightarrow>
           ordersSigned evs = [so] \<Longrightarrow>
           postOutcomes evs = [Inr (Some r)] \<Longrightarrow>
           holdingsUpdates evs = [AddHoldings (conditionId (trade options)) (asset (trade options)) q (Inl e)] \<Longrightarrow>
           ApproveTokensAfterBuy \<notin> set evs \<Longrightarrow>
           ordersCreated evs = [mo'] \<Longrightarrow>
           tradeToMarketOrder env options = Inr mo \<Longrightarrow>
           balanceReports evs = [bc] \<Longrightarrow>
           Q (Inr (failure (errorText e))) s' evs"
    and credited: "\<And>mo bc mo' r q so s' evs.
           (valid bc \<Longrightarrow> mo' = mo) \<Longrightarrow>
           (\<not> valid bc \<Longrightarrow> mo' = mo\<lparr>amount := available bc\<rparr>) \<Longrightarrow>
           (\<not> valid bc \<Longrightarrow> \<not> js_le (available bc) (Fin 0)) \<Longrightarrow>
           \<not> orderFailed (Some r) \<Longrightarrow>
           creditedTokens env (trade options) mo' r = [q] \<Longrightarrow>
           fst (addHoldings env (conditionId (trade options)) (asset (trade options)) q (ledger s)) = Inr () \<Longrightarrow>
           ledger s' = snd (addHoldings env (conditionId (trade options)) (asset (trade options)) q (ledger s)) \<Longrightarrow>
           ordersSigned evs = [so] \<Longrightarrow>
           postOutcomes evs = [Inr (Some r)] \<Longrightarrow>
           holdingsUpdates evs = [AddHoldings (conditionId (trade options)) (asset (trade options)) q (Inr ())] \<Longrightarrow>
           holdingsUpdates (afterApproval evs) = [] \<Longrightarrow>
           ApproveTokensAfterBuy \<in> set evs \<Longrightarrow>
           js_gt (tokensReceived env r) (Fin 0)
             \<or> Log WARN ''Using estimated token amount: '' \<in> set evs \<Longrightarrow>
           ordersCreated evs = [mo'] \<Longrightarrow>
           tradeToMarketOrder env options = Inr mo \<Longrightarrow>
           balanceReports evs = [bc] \<Longrightarrow>
           Q (Inr (filled r mo')) s' evs"
    and uncredited: "\<And>mo bc mo' r so s' evs.
           (valid bc \<Longrightarrow> mo' = mo) \<Longrightarrow>
           (\<not> valid bc \<Longrightarrow> mo' = mo\<lparr>amount := available bc\<rparr>) \<Longrightarrow>
           (\<not> valid bc \<Longrightarrow> \<not> js_le (available bc) (Fin 0)) \<Longrightarrow>
           \<not> orderFailed (Some r) \<Longrightarrow>
           creditedTokens env (trade options) mo' r = [] \<Longrightarrow>
           ledger s' = ledger s \<Longrightarrow>
           ordersSigned evs = [so] \<Longrightarrow>
           postOutcomes evs = [Inr (Some r)] \<Longrightarrow>
           holdingsUpdates evs = [] \<Longrightarrow>
           ApproveTokensAfterBuy \<in> set evs \<Longrightarrow>
           Log WARN ''No tokens received and cannot estimate - not adding to holdings''
             \<in> set evs \<Longrightarrow>
           ordersCreated evs = [mo'] \<Longrightarrow>
           tradeToMarketOrder env options = Inr mo \<Longrightarrow>
           balanceReports evs = [bc] \<Longrightarrow>
           Q (Inr (filled r mo')) s' evs"
  shows "wp (copyTrade env options) Q s"
  unfolding copyTrade_def Let_def
  using side
  apply simp
  apply (rule wp_copyTradeBuy; simp?)
    apply (rule wp_copyTradeCatch; simp?)
    apply (rule early; simp)
   apply (rule broke; simp)
  apply (rule wp_copyTradeBuyPlace; simp?)
        apply (rule wp_copyTradeCatch; simp?)
        apply (rule noOptions; simp)
       apply (rule wp_copyTradeCatch; simp?)
       apply (rule noOrder; simp)
      apply (rule wp_copyTradeCatch; simp?)
      apply (rule postThrew; simp)
     apply (rule rejected; simp)
    apply (rule wp_copyTradeCatch; simp?)
    apply (rule creditThrew; simp)
   apply (rule credited; auto)
  apply (rule uncredited; simp)
  done


lemma wp_copyTradeSellSettle:
  assumes failed: "orderFailed response \<Longrightarrow>
             Q (Inr (failure (describeOrderFailure env (statusOf response)))) s []"
    and threw: "\<And>r e l.
           response = Some r \<Longrightarrow> \<not> orderFailed response \<Longrightarrow>
           js_gt (tokensSold env r (amount mo)) (Fin 0) \<Longrightarrow>
           removeHoldings env m tk (tokensSold env r (amount mo)) (ledger s) = (Inl e, l) \<Longrightarrow>
           Q (Inl e) (s\<lparr>ledger := l\<rparr>)
             [RemoveHoldings m tk (tokensSold env r (amount mo)) (Inl e)]"
    and removed: "\<And>r l.
           response = Some r \<Longrightarrow> \<not> orderFailed response \<Longrightarrow>
           js_gt (tokensSold env r (amount mo)) (Fin 0) \<Longrightarrow>
           removeHoldings env m tk (tokensSold env r (amount mo)) (ledger s) = (Inr (), l) \<Longrightarrow>
           Q (Inr (filled r mo)) (s\<lparr>ledger := l\<rparr>)
             [RemoveHoldings m tk (tokensSold env r (amount mo)) (Inr ()),
              Log INFO ''Removed '', Log SUCCESS ''SELL order executed! '']"
    and unsold: "\<And>r.
           response = Some r \<Longrightarrow> \<not> orderFailed response \<Longrightarrow>
           \<not> js_gt (tokensSold env r (amount mo)) (Fin 0) \<Longrightarrow>
           Q (Inr (filled r mo)) s
             [Log WARN ''No tokens were sold - not removing from holdings'',
              Log SUCCESS ''SELL order executed! '']"
  shows "wp (copyTradeSellSettle env m tk mo response) Q s"
proof (cases response)
  case None
  with failed show ?thesis by (simp add: copyTradeSellSettle_def)
next
  case (Some r)
  show ?thesis
  proof (cases "orderFailed response")
    case True
    with Some failed show ?thesis by (simp add: copyTradeSellSettle_def)
  next
    case False
    show ?thesis
    proof (cases "js_gt (tokensSold env r (amount mo)) (Fin 0)")
      case True
      with Some False show ?thesis
        unfolding copyTradeSellSettle_def
        by (auto split: sum.split intro: threw removed)
    next
      case no: False
      with Some False show ?thesis
        unfolding copyTradeSellSettle_def
        by (auto intro: unsold)
    qed
  qed
qed

lemma wp_copyTrade_sell:
  assumes side: "toUpperCase (tradeSide (trade options)) = ''SELL''"
    and early: "\<And>e s' evs.
           ledger s' = ledger s \<Longrightarrow>
           ordersCreated evs = [] \<Longrightarrow> ordersSigned evs = [] \<Longrightarrow>
           postOutcomes evs = [] \<Longrightarrow> holdingsUpdates evs = [] \<Longrightarrow>
           Q (Inr (failure (errorText e))) s' evs"
    and noHoldings: "\<And>h.
           js_le h (Fin 0) \<Longrightarrow>
           getHoldings env (conditionId (trade options)) (asset (trade options)) (ledger s) = Inr h \<Longrightarrow>
           Q (Inr (failure ''No holdings available to sell'')) s
             [GetHoldings (conditionId (trade options)) (asset (trade options)) (Inr h), Log WARN ''No holdings found for token '']"
    and noOrder: "\<And>h e s' evs.
           ledger s' = ledger s \<Longrightarrow>
           ordersCreated evs = [\<lparr>tokenID = asset (trade options), orderSide = SELL, amount = h,
               orderKind = Some (orDefault (orderType options) FAK), orderPrice = None\<rparr>] \<Longrightarrow>
           ordersSigned evs = [] \<Longrightarrow>
           postOutcomes evs = [] \<Longrightarrow> holdingsUpdates evs = [] \<Longrightarrow>
           \<not> js_le h (Fin 0) \<Longrightarrow>
           getHoldings env (conditionId (trade options)) (asset (trade options)) (ledger s) = Inr h \<Longrightarrow>
           Q (Inr (failure (errorText e))) s' evs"
    and postThrew: "\<And>h e so s' evs.
           ledger s' = ledger s \<Longrightarrow>
           ordersCreated evs = [\<lparr>tokenID = asset (trade options), orderSide = SELL, amount = h,
               orderKind = Some (orDefault (orderType options) FAK), orderPrice = None\<rparr>] \<Longrightarrow>
           ordersSigned evs = [so] \<Longrightarrow>
           postOutcomes evs = [Inl e] \<Longrightarrow> holdingsUpdates evs = [] \<Longrightarrow>
           \<not> js_le h (Fin 0) \<Longrightarrow>
           getHoldings env (conditionId (trade options)) (asset (trade options)) (ledger s) = Inr h \<Longrightarrow>
           Q (Inr (failure (errorText (postFailure e)))) s' evs"
    and rejected: "\<And>h response so s' evs.
           orderFailed response \<Longrightarrow>
           ledger s' = ledger s \<Longrightarrow>
           ordersCreated evs = [\<lparr>tokenID = asset (trade options), orderSide = SELL, amount = h,
               orderKind = Some (orDefault (orderType options) FAK), orderPrice = None\<rparr>] \<Longrightarrow>
           ordersSigned evs = [so] \<Longrightarrow>
           postOutcomes evs = [Inr response] \<Longrightarrow> holdingsUpdates evs = [] \<Longrightarrow>
           \<not> js_le h (Fin 0) \<Longrightarrow>
           getHoldings env (conditionId (trade options)) (asset (trade options)) (ledger s) = Inr h \<Longrightarrow>
           Q (Inr (failure (describeOrderFailure env (statusOf response)))) s' evs"
    and removeThrew: "\<And>h r e so s' evs.
           \<not> orderFailed (Some r) \<Longrightarrow>
           js_gt (tokensSold env r h) (Fin 0) \<Longrightarrow>
           fst (removeHoldings env (conditionId (trade options)) (asset (trade options)) (tokensSold env r h) (ledger s)) = Inl e \<Longrightarrow>
           ledger s' = snd (removeHoldings env (conditionId (trade options)) (asset (trade options)) (tokensSold env r h) (ledger s)) \<Longrightarrow>
           ordersCreated evs = [\<lparr>tokenID = asset (trade options), orderSide = SELL, amount = h,
               orderKind = Some (orDefault (orderType options) FAK), orderPrice = None\<rparr>] \<Longrightarrow>
           ordersSigned evs = [so] \<Longrightarrow>
           postOutcomes evs = [Inr (Some r)] \<Longrightarrow>
           holdingsUpdates evs = [RemoveHoldings (conditionId (trade options)) (asset (trade options)) (tokensSold env r h) (Inl e)] \<Longrightarrow>
           \<not> js_le h (Fin 0) \<Longrightarrow>
           getHoldings env (conditionId (trade options)) (asset (trade options)) (ledger s) = Inr h \<Longrightarrow>
           Q (Inr (failure (errorText e))) s' evs"
    and removed: "\<And>h r so s' evs.
           \<not> orderFailed (Some r) \<Longrightarrow>
           js_gt (tokensSold env r h) (Fin 0) \<Longrightarrow>
           fst (removeHoldings env (conditionId (trade options)) (asset (trade options)) (tokensSold env r h) (ledger s)) = Inr () \<Longrightarrow>
           ledger s' = snd (removeHoldings env (conditionId (trade options)) (asset (trade options)) (tokensSold env r h) (ledger s)) \<Longrightarrow>
           ordersCreated evs = [\<lparr>tokenID = asset (trade options), orderSide = SELL, amount = h,
               orderKind = Some (orDefault (orderType options) FAK), orderPrice = None\<rparr>] \<Longrightarrow>
           ordersSigned evs = [so] \<Longrightarrow>
           postOutcomes evs = [Inr (Some r)] \<Longrightarrow>
           holdingsUpdates evs = [RemoveHoldings (conditionId (trade options)) (asset (trade options)) (tokensSold env r h) (Inr ())] \<Longrightarrow>
           \<not> js_le h (Fin 0) \<Longrightarrow>
           getHoldings env (conditionId (trade options)) (asset (trade options)) (ledger s) = Inr h \<Longrightarrow>
           Q (Inr (filled r \<lparr>tokenID = asset (trade options), orderSide = SELL, amount = h,
               orderKind = Some (orDefault (orderType options) FAK), orderPrice = None\<rparr>)) s' evs"
    and unsold: "\<And>h r so s' evs.
           \<not> orderFailed (Some r) \<Longrightarrow>
           \<not> js_gt (tokensSold env r h) (Fin 0) \<Longrightarrow>
           ledger s' = ledger s \<Longrightarrow>
           ordersCreated evs = [\<lparr>tokenID = asset (trade options), orderSide = SELL, amount = h,
               orderKind = Some (orDefault (orderType options) FAK), orderPrice = None\<rparr>] \<Longrightarrow>
           ordersSigned evs = [so] \<Longrightarrow>
           postOutcomes evs = [Inr (Some r)] \<Longrightarrow>
           holdingsUpdates evs = [] \<Longrightarrow>
           Log WARN ''No tokens were sold - not removing from holdings'' \<in> set evs \<Longrightarrow>
           \<not> js_le h (Fin 0) \<Longrightarrow>
           getHoldings env (conditionId (trade options)) (asset (trade options)) (ledger s) = Inr h \<Longrightarrow>
           Q (Inr (filled r \<lparr>tokenID = asset (trade options), orderSide = SELL, amount = h,
               orderKind = Some (orDefault (orderType options) FAK), orderPrice = None\<rparr>)) s' evs"
  shows "wp (copyTrade env options) Q s"
  unfolding copyTrade_def Let_def copyTradeSell_def
  using side
  apply (simp split: sum.split)
  apply (intro allI impI conjI)
     apply (rule wp_copyTradeCatch; simp?)
     apply (rule early; simp)
    apply (rule noHoldings; simp)
   apply (rule wp_copyTradeCatch; simp?)
   apply (rule early; simp)
   apply (rule noHoldings; simp)
  apply (rule wp_createSimulateAndPost; simp?)
    apply (rule wp_copyTradeCatch; simp?)
    apply (rule noOrder; simp)
   apply (rule wp_copyTradeCatch; simp?)
   apply (rule postThrew; simp)
  apply (rule wp_copyTradeSellSettle; simp?)
     apply (rule rejected; simp)
    apply (rule wp_copyTradeCatch; simp?)
    apply (rule removeThrew; simp)
   apply (rule removed; simp)
  apply (rule unsold; simp)
  done

section \<open>Facts about a run that was accepted\<close>

lemma fillAccepted_iff: "fillAccepted (Inr (Some r)) \<longleftrightarrow> \<not> orderFailed (Some r)"
  by (auto simp: fillAccepted_def orderFailed_def)

lemma quantities_updates [simp]:
  "quantitiesAdded (holdingsUpdates evs) = quantitiesAdded evs"
  "quantitiesRemoved (holdingsUpdates evs) = quantitiesRemoved evs"
  by (induction evs; simp add: holdingsUpdates_def; rename_tac e es; case_tac e; simp)+

lemma sell_settles:
  assumes run: "copyTrade env options s = (res, s', evs)"
    and side: "toUpperCase (tradeSide (trade options)) = ''SELL''"
    and held: "getHoldings env (conditionId (trade options)) (asset (trade options)) (ledger s)
                 = Inr h"
    and post: "postOutcomes evs = [Inr (Some r)]"
    and ok: "\<not> orderFailed (Some r)"
    and pos: "js_gt (tokensSold env r h) (Fin 0)"
  shows "quantitiesAdded evs = []"
    and "quantitiesRemoved evs
           = [(conditionId (trade options), asset (trade options), tokensSold env r h)]"
    and "ledger s' = snd (removeHoldings env (conditionId (trade options))
                            (asset (trade options)) (tokensSold env r h) (ledger s))"
    and "fst (removeHoldings env (conditionId (trade options)) (asset (trade options))
                (tokensSold env r h) (ledger s)) = Inr () \<Longrightarrow>
         res = Inr (filled r
                 \<lparr>tokenID = asset (trade options), orderSide = SELL, amount = h,
                  orderKind = Some (orDefault (orderType options) FAK), orderPrice = None\<rparr>)"
proof -
  have "wp (copyTrade env options)
          (\<lambda>res s' evs. postOutcomes evs = [Inr (Some r)] \<longrightarrow>
             quantitiesAdded (holdingsUpdates evs) = []
             \<and> quantitiesRemoved (holdingsUpdates evs)
                 = [(conditionId (trade options), asset (trade options), tokensSold env r h)]
             \<and> ledger s' = snd (removeHoldings env (conditionId (trade options))
                            (asset (trade options)) (tokensSold env r h) (ledger s))
             \<and> (fst (removeHoldings env (conditionId (trade options)) (asset (trade options))
                (tokensSold env r h) (ledger s)) = Inr () \<longrightarrow>
                 res = Inr (filled r
                 \<lparr>tokenID = asset (trade options), orderSide = SELL, amount = h,
                  orderKind = Some (orDefault (orderType options) FAK), orderPrice = None\<rparr>))) s"
    using held ok pos
    by (rule_tac wp_copyTrade_sell[OF side]; auto simp del: quantities_updates)
  from wpD[OF this run] post
  show "quantitiesAdded evs = []"
    and "quantitiesRemoved evs
           = [(conditionId (trade options), asset (trade options), tokensSold env r h)]"
    and "ledger s' = snd (removeHoldings env (conditionId (trade options))
                            (asset (trade options)) (tokensSold env r h) (ledger s))"
    and "fst (removeHoldings env (conditionId (trade options)) (asset (trade options))
                (tokensSold env r h) (ledger s)) = Inr () \<Longrightarrow>
         res = Inr (filled r
                 \<lparr>tokenID = asset (trade options), orderSide = SELL, amount = h,
                  orderKind = Some (orDefault (orderType options) FAK), orderPrice = None\<rparr>)"
    by simp_all
qed


lemma fillAccepted_simps [simp]:
  "fillAccepted (Inr response) \<longleftrightarrow> \<not> orderFailed response"
  "\<not> fillAccepted (Inl e)"
  by (auto simp: fillAccepted_def orderFailed_def split: option.splits)

lemma updateThrew_updates [simp]:
  "list_ex updateThrew (holdingsUpdates evs) = list_ex updateThrew evs"
  by (induction evs; simp add: holdingsUpdates_def; rename_tac e es; case_tac e; simp)

lemma verdict_simps [simp]:
  "success (failure msg) = False" "error (failure msg) = Some msg"
  "resultOrderID (failure msg) = None" "marketOrder (failure msg) = None"
  "success (filled r mo) = True" "error (filled r mo) = None"
  "resultOrderID (filled r mo) = orderID r" "marketOrder (filled r mo) = Some mo"
  by (simp_all add: failure_def filled_def)

lemma copyTrade_returns:
  "wp (copyTrade env options)
      (\<lambda>res s' evs. \<not> isl res
         \<and> (if success (projr res)
             then error (projr res) = None \<and> marketOrder (projr res) \<noteq> None
             else error (projr res) \<noteq> None \<and> resultOrderID (projr res) = None)) s"
proof (cases "toUpperCase (tradeSide (trade options)) = ''SELL''")
  case True
  show ?thesis by (rule wp_copyTrade_sell[OF True]; simp)
next
  case False
  show ?thesis by (rule wp_copyTrade_buy[OF False]; simp)
qed



lemma run_parts: "run = (resultOf run, stateOf run, traceOf run)"
  by (simp add: resultOf_def stateOf_def traceOf_def)

lemma holdingsUpdates_afterApproval_none [simp]:
  "holdingsUpdates evs = [] \<Longrightarrow> holdingsUpdates (afterApproval evs) = []"
  by (induction evs) (auto simp: holdingsUpdates_def split: if_splits)

lemma buy_settles:
  assumes side: "toUpperCase (tradeSide (trade options)) \<noteq> ''SELL''"
  shows "wp (copyTrade env options)
      (\<lambda>res s' evs. \<forall>r mo. postOutcomes evs = [Inr (Some r)] \<and> \<not> orderFailed (Some r)
           \<and> ordersCreated evs = [mo]
           \<and> \<not> list_ex updateThrew (holdingsUpdates evs) \<longrightarrow>
         res = Inr (filled r mo)
         \<and> ApproveTokensAfterBuy \<in> set evs \<and> holdingsUpdates (afterApproval evs) = []
         \<and> quantitiesRemoved (holdingsUpdates evs) = []
         \<and> quantitiesAdded (holdingsUpdates evs)
             = map (\<lambda>q. (conditionId (trade options), asset (trade options), q))
                 (creditedTokens env (trade options) mo r)
         \<and> ledger s'
             = (case creditedTokens env (trade options) mo r of
                  [] \<Rightarrow> ledger s
                | q # _ \<Rightarrow> snd (addHoldings env (conditionId (trade options))
                               (asset (trade options)) q (ledger s)))
         \<and> (js_gt (tokensReceived env r) (Fin 0)
              \<or> creditedTokens env (trade options) mo r = []
              \<or> Log WARN ''Using estimated token amount: '' \<in> set evs)
         \<and> (creditedTokens env (trade options) mo r = [] \<longrightarrow>
               Log WARN ''No tokens received and cannot estimate - not adding to holdings''
                 \<in> set evs)) s"
  by (rule wp_copyTrade_buy[OF side]; auto simp del: quantities_updates updateThrew_updates)

lemma buy_sizing:
  assumes side: "toUpperCase (tradeSide (trade options)) \<noteq> ''SELL''"
  shows "wp (copyTrade env options)
      (\<lambda>res s' evs. \<forall>bc mo. balanceReports evs = [bc] \<and> \<not> valid bc
           \<and> tradeToMarketOrder env options = Inr mo \<longrightarrow>
         (js_le (available bc) (Fin 0) \<longrightarrow>
            res = Inr (failure (''Insufficient USDC balance. Available: ''
                                @ numToString env (available bc)))
            \<and> ordersCreated evs = [] \<and> postOutcomes evs = [] \<and> holdingsUpdates evs = []
            \<and> ledger s' = ledger s)
         \<and> (\<not> js_le (available bc) (Fin 0) \<longrightarrow>
              (\<forall>mo'\<in>set (ordersCreated evs). mo' = mo\<lparr>amount := available bc\<rparr>)
              \<and> length (postOutcomes evs) = length (ordersSigned evs)
              \<and> (\<forall>oo. getDefaultOrderOptions env
                          (Some (orDefault (tickSize options) ''0.01''))
                          (Some (orDefault (negRisk options) False)) = Inr oo \<longrightarrow>
                     ordersCreated evs = [mo\<lparr>amount := available bc\<rparr>]))) s"
  by (rule wp_copyTrade_buy[OF side]; simp)



lemma js_gt_not_le: "js_gt a b \<Longrightarrow> \<not> js_le a b"
  using js_le_not_gt by blast

section \<open>Programs that simulate at most once\<close>

lemma ordersPosted_simps [simp]:
  "ordersPosted [] = []"
  "ordersPosted (xs @ ys) = ordersPosted xs @ ordersPosted ys"
  "ordersPosted (e # es) = (case postedOrder e of None \<Rightarrow> ordersPosted es
                             | Some so \<Rightarrow> so # ordersPosted es)"
  by (simp_all add: ordersPosted_def List.map_filter_simps split: option.split)

lemma fromFirstPost_append:
  "fromFirstPost (xs @ ys) =
     (if filter isPostOrder xs = [] then fromFirstPost ys else fromFirstPost xs @ ys)"
  by (auto simp: fromFirstPost_def dropWhile_append filter_empty_conv)

lemma fromFirstPost_simps [simp]:
  "fromFirstPost [] = []"
  "fromFirstPost (e # es) = (if isPostOrder e then e # es else fromFirstPost es)"
  by (simp_all add: fromFirstPost_def)

lemma postsAfterSim_append:
  "postsAfterSim xs \<Longrightarrow> postsAfterSim ys \<Longrightarrow> postsAfterSim (xs @ ys)"
  by (induction xs rule: postsAfterSim.induct) auto

lemma postsAfterSim_quiet: "filter isSimulateTx xs = [] \<Longrightarrow> postsAfterSim xs"
  by (induction xs rule: postsAfterSim.induct) auto

lemma sims_fromFirstPost: "filter isSimulateTx xs = [] \<Longrightarrow> filter isSimulateTx (fromFirstPost xs) = []"
  by (induction xs) (auto split: if_splits)

lemma simFacts_append:
  assumes "simFacts a b xs" and "simFacts b c ys"
  shows "simFacts a c (xs @ ys)"
  using assms
  by (auto simp: simFacts_def fromFirstPost_append postsAfterSim_append)

lemma simFacts_nil [simp]: "simFacts a a []"
  by (simp add: simFacts_def)


lemma simOnceD:
  "simOnce m \<Longrightarrow> m s = (r, s', evs) \<Longrightarrow> simFacts (simulateTxDone s) (simulateTxDone s') evs"
  unfolding simOnce_def by (drule spec[of _ s]) simp

lemma simOnceI:
  "(\<And>s r s' evs. m s = (r, s', evs) \<Longrightarrow> simFacts (simulateTxDone s) (simulateTxDone s') evs)
     \<Longrightarrow> simOnce m"
  unfolding simOnce_def by (auto split: prod.split)

lemma simOnce_bind [intro!]:
  assumes "simOnce m" and "\<And>x. simOnce (f x)"
  shows "simOnce (bindP m f)"
proof (rule simOnceI)
  fix s r s' evs
  assume run: "bindP m f s = (r, s', evs)"
  obtain r1 s1 ev1 where m: "m s = (r1, s1, ev1)" by (cases "m s") auto
  note h1 = simOnceD[OF assms(1) m]
  show "simFacts (simulateTxDone s) (simulateTxDone s') evs"
  proof (cases r1)
    case (Inl e)
    with m run h1 show ?thesis by (simp add: bindP_def)
  next
    case (Inr x)
    obtain r2 s2 ev2 where f: "f x s1 = (r2, s2, ev2)" by (cases "f x s1") auto
    note h2 = simOnceD[OF assms(2) f]
    from m Inr f run have "s' = s2" "evs = ev1 @ ev2" by (simp_all add: bindP_def)
    with simFacts_append[OF h1 h2] show ?thesis by simp
  qed
qed

lemma simOnce_catch [intro!]:
  assumes "simOnce m" and "\<And>e. simOnce (h e)"
  shows "simOnce (catchP m h)"
proof (rule simOnceI)
  fix s r s' evs
  assume run: "catchP m h s = (r, s', evs)"
  obtain r1 s1 ev1 where m: "m s = (r1, s1, ev1)" by (cases "m s") auto
  note h1 = simOnceD[OF assms(1) m]
  show "simFacts (simulateTxDone s) (simulateTxDone s') evs"
  proof (cases r1)
    case (Inr x)
    with m run h1 show ?thesis by (simp add: catchP_def)
  next
    case (Inl e)
    obtain r2 s2 ev2 where f: "h e s1 = (r2, s2, ev2)" by (cases "h e s1") auto
    note h2 = simOnceD[OF assms(2) f]
    from m Inl f run have "s' = s2" "evs = ev1 @ ev2" by (simp_all add: catchP_def)
    with simFacts_append[OF h1 h2] show ?thesis by simp
  qed
qed

lemma postOutcomes_none:
  "postOutcomes xs = [] \<Longrightarrow> filter isPostOrder xs = [] \<and> ordersPosted xs = []"
proof (induction xs)
  case Nil
  then show ?case by simp
next
  case (Cons e xs)
  then show ?case by (cases e) (auto simp: postOutcomes_def List.map_filter_simps)
qed

lemma simOnce_bystander: "bystander m \<Longrightarrow> simOnce m"
proof (rule simOnceI)
  fix s r s' evs
  assume b: "bystander m" and run: "m s = (r, s', evs)"
  note h = bystanderD[OF b run]
  from h have "ordersSigned evs = []" by (simp add: ordersCreated_none)
  moreover from h have "filter isPostOrder evs = [] \<and> ordersPosted evs = []"
    by (simp add: postOutcomes_none)
  ultimately show "simFacts (simulateTxDone s) (simulateTxDone s') evs"
    using h by (simp add: simFacts_def postsAfterSim_quiet sims_fromFirstPost)
qed

lemma simOnce_basic [intro!, simp]:
  "simOnce (returnP x)" "simOnce (throwP e)" "simOnce (liftP v)" "simOnce (logP l t)"
  "simOnce (approveTokensAfterBuy env)" "simOnce (copyTradeCatch env e)"
  by (simp_all add: simOnce_bystander)

lemma simOnce_if [intro!]:
  "(c \<Longrightarrow> simOnce a) \<Longrightarrow> (\<not> c \<Longrightarrow> simOnce b) \<Longrightarrow> simOnce (if c then a else b)"
  by simp

lemma simOnce_option [intro!]:
  "(x = None \<Longrightarrow> simOnce a) \<Longrightarrow> (\<And>y. x = Some y \<Longrightarrow> simOnce (f y))
     \<Longrightarrow> simOnce (case x of None \<Rightarrow> a | Some y \<Rightarrow> f y)"
  by (cases x) simp_all

lemma postsAfterSim_cons [simp]:
  "\<not> isSimulateTx e \<Longrightarrow> postsAfterSim (e # es) = postsAfterSim es"
  by (cases e) simp_all

lemma simOnce_quiet:
  assumes "\<And>r. \<not> isSimulateTx (ev r) \<and> \<not> isPostOrder (ev r) \<and> signedOrderOf (ev r) = None
          \<and> postedOrder (ev r) = None"
  shows "simOnce (callW f ev)" "simOnce (callH g ev)" "simOnce (readH k ev)"
    "simOnce (emitP (ev r))"
  using assms
  by (auto simp: simOnce_def prog_defs simFacts_def ordersSigned_def List.map_filter_simps
        split: prod.splits)

lemma wp_simulateOnce_sim:
  assumes "\<And>s' evs.
           (simulateTxDone s \<longrightarrow> evs = []) \<Longrightarrow> simulateTxDone s' \<Longrightarrow>
           length (filter isSimulateTx evs) \<le> 1 \<Longrightarrow> filter isPostOrder evs = [] \<Longrightarrow>
           ordersPosted evs = [] \<Longrightarrow> ordersSigned evs = [] \<Longrightarrow>
           (\<And>ot x. postsAfterSim (evs @ [PostOrder so ot x])) \<Longrightarrow>
           Q (Inr ()) s' evs"
  shows "wp (simulateOnce env so) Q s"
  unfolding simulateOnce_def simulateTx_def Let_def
  by (auto simp: wp_flag_if split: sum.split intro!: assms)

lemma simOnce_createSimulateAndPost [intro!, simp]:
  "simOnce (createSimulateAndPost env mo oo ot)"
proof (rule simOnceI)
  fix s r s' evs
  assume run: "createSimulateAndPost env mo oo ot s = (r, s', evs)"
  have "wp (createSimulateAndPost env mo oo ot)
          (\<lambda>r s' evs. simFacts (simulateTxDone s) (simulateTxDone s') evs) s"
    unfolding createSimulateAndPost_def
    apply (simp split: sum.split)
    apply (intro allI impI conjI)
     apply (simp add: simFacts_def)
    apply (rule wp_simulateOnce_sim)
    apply (auto simp: simFacts_def fromFirstPost_append sims_fromFirstPost
             split: sum.split)
    done
  from wpD[OF this run] show "simFacts (simulateTxDone s) (simulateTxDone s') evs" .
qed


lemma simOnce_copyTrade [intro!, simp]: "simOnce (copyTrade env options)"
  unfolding copyTrade_def copyTradeSell_def copyTradeSellSettle_def copyTradeBuy_def
    copyTradeBuyPlace_def copyTradeBuySettle_def Let_def
  by (auto intro!: simOnce_quiet)

lemma simOnce_placeMarket [intro!, simp]: "simOnce (placeMarket sd env tokenId amt options)"
  unfolding placeMarket_def Let_def
  by (auto intro!: simOnce_quiet)

lemma simOnce_serve [intro!, simp]: "simOnce (serve env q)"
  by (cases q) (simp_all add: serve_def placeMarketBuy_def placeMarketSell_def)

lemma serveAll_simFacts:
  "serveAll env qs s = (rs, s', evs) \<Longrightarrow>
     simFacts (simulateTxDone s) (simulateTxDone s') evs"
proof (induction qs arbitrary: s rs s' evs)
  case Nil
  then show ?case by simp
next
  case (Cons q qs)
  obtain r s1 ev1 where one: "serve env q s = (r, s1, ev1)" by (cases "serve env q s") auto
  obtain rs2 s2 ev2 where rest: "serveAll env qs s1 = (rs2, s2, ev2)"
    by (cases "serveAll env qs s1") auto
  from Cons.prems one rest have "s' = s2" "evs = ev1 @ ev2" by simp_all
  with simFacts_append[OF simOnceD[OF simOnce_serve one] Cons.IH[OF rest]]
  show ?case by simp
qed


section \<open>Trying the RPC endpoints\<close>

lemma probes_simps [simp]:
  "probes [] = []"
  "probes (xs @ ys) = probes xs @ probes ys"
  "probes (GetNetwork u r t # es) = (u, r, t) # probes es"
  by (simp_all add: probes_def List.map_filter_simps)


lemma raceTimeout_bound:
  "snd (raceTimeout ms p) \<le> ms"
  "snd (raceTimeout ms p) = ms \<Longrightarrow> fst (raceTimeout ms p) = Inl (newError ''timeout'')"
  "fst (raceTimeout ms p) = Inr x \<Longrightarrow> p = Settles (snd (raceTimeout ms p)) (Inr x)"
  by (auto simp: raceTimeout_def split: settled.splits if_splits)










section \<open>Runs of the examples\<close>

lemma sale_of_nothing_run:
  "copyTrade (answering (demoResponse\<lparr>makingAmount := Some ''0''\<rparr>)) (demoOptions ''SELL'')
     (demoBot heldLedger) =
    (Inr (filled (demoResponse\<lparr>makingAmount := Some ''0''\<rparr>) demoSellOrder),
     \<lparr>simulateTxDone = True, ledger = heldLedger, world = ()\<rparr>,
     demoSellEvents (demoResponse\<lparr>makingAmount := Some ''0''\<rparr>)
     @ [Log WARN ''No tokens were sold - not removing from holdings'',
        Log SUCCESS ''SELL order executed! ''])"
  by (simp add: demo_defs run_defs)

section \<open>No short-selling\<close>

text \<open>
  Claim C1. For a trade whose side is SELL (in any letter case), when the ledger's
  quantity for the (market, token) key is zero or negative, \<open>copyTrade\<close> returns the
  failure "No holdings available to sell". The state (ledger, world and simulation flag)
  is the one it started from, and the only events are the read of the ledger and the
  warning: no order is created, simulated or posted.
\<close>

theorem sell_without_holdings_is_skipped:
  assumes "toUpperCase (tradeSide (trade options)) = ''SELL''"
    and "getHoldings env (conditionId (trade options)) (asset (trade options)) (ledger s)
           = Inr h"
    and "js_le h (Fin 0)"
  shows "copyTrade env options s =
           (Inr (failure ''No holdings available to sell''), s,
            [GetHoldings (conditionId (trade options)) (asset (trade options)) (Inr h),
             Log WARN ''No holdings found for token ''])"
  using assms by (simp add: copyTrade_def copyTradeSell_def prog_defs Let_def)

theorem sell_without_holdings_is_skipped_witness:
  "toUpperCase (tradeSide (trade (demoOptions ''sell''))) = ''SELL''
   \<and> getHoldings demoEnv ''m1'' ''t1'' Map.empty = Inr (Fin 0)
   \<and> js_le (Fin 0) (Fin 0)
   \<and> copyTrade demoEnv (demoOptions ''sell'') (demoBot Map.empty) =
       (Inr (failure ''No holdings available to sell''), demoBot Map.empty,
        [GetHoldings ''m1'' ''t1'' (Inr (Fin 0)), Log WARN ''No holdings found for token ''])"
  using sell_without_holdings_is_skipped
          [of "demoOptions ''sell''" demoEnv "demoBot Map.empty" "Fin 0"]
  by (simp add: demo_defs ledgerGet_def js_le_def)


section \<open>A sale that sold nothing\<close>

text \<open>
  Claim C6. In a SELL that was posted and accepted by the venue, when the executed
  quantity \<open>tokensSold\<close> (the parsed \<^verbatim>\<open>makingAmount\<close> when the response has one, the
  offered quantity otherwise) is zero or negative, no call updates the holdings and the
  ledger is the one the run started with; the warning is logged, and the result is still
  the successful one, with the order id of the response.
\<close>

theorem sale_of_nothing_keeps_ledger:
  assumes "copyTrade env options s = (res, s', evs)"
    and "toUpperCase (tradeSide (trade options)) = ''SELL''"
    and "getHoldings env (conditionId (trade options)) (asset (trade options)) (ledger s)
           = Inr h"
    and "postOutcomes evs = [Inr (Some r)]"
    and "\<not> orderFailed (Some r)"
    and "js_le (tokensSold env r h) (Fin 0)"
  shows "holdingsUpdates evs = [] \<and> ledger s' = ledger s
     \<and> Log WARN ''No tokens were sold - not removing from holdings'' \<in> set evs
     \<and> res = Inr (filled r
                \<lparr>tokenID = asset (trade options), orderSide = SELL, amount = h,
                 orderKind = Some (orDefault (orderType options) FAK), orderPrice = None\<rparr>)"
  using assms
  by (clarsimp simp: copyTrade_def copyTradeSell_def copyTradeSellSettle_def prog_defs Let_def
        proj_defs List.map_filter_simps tokensSold_def js_le_not_gt
      split: prod.splits sum.splits if_splits option.splits
      dest!: createSimulateAndPost_run copyTradeCatch_run)


theorem sale_of_nothing_keeps_ledger_witness:
  "toUpperCase (tradeSide (trade (demoOptions ''SELL''))) = ''SELL''
   \<and> js_le (tokensSold (answering (demoResponse\<lparr>makingAmount := Some ''0''\<rparr>))
              (demoResponse\<lparr>makingAmount := Some ''0''\<rparr>) (Fin (403 / 50))) (Fin 0)
   \<and> holdingsUpdates (demoSellEvents (demoResponse\<lparr>makingAmount := Some ''0''\<rparr>)
        @ [Log WARN ''No tokens were sold - not removing from holdings'',
           Log SUCCESS ''SELL order executed! '']) = []
   \<and> ledger \<lparr>simulateTxDone = True, ledger = heldLedger, world = ()\<rparr> = heldLedger"
  using sale_of_nothing_keeps_ledger [OF sale_of_nothing_run,
          of "Fin (403 / 50)" "demoResponse\<lparr>makingAmount := Some ''0''\<rparr>"]
  by (simp add: demo_defs run_defs tokensSold_def proj_defs List.map_filter_simps)


section \<open>Selling everything, removing what was sold\<close>

lemma sell_offers_ledger_quantity:
  assumes run: "copyTrade env options s = (res, s', evs)"
    and side: "toUpperCase (tradeSide (trade options)) = ''SELL''"
    and held: "getHoldings env (conditionId (trade options)) (asset (trade options)) (ledger s) = Inr h"
    and mo: "mo \<in> set (ordersCreated evs)"
  shows "mo = \<lparr>tokenID = asset (trade options), orderSide = SELL, amount = h,
                  orderKind = Some (orDefault (orderType options) FAK), orderPrice = None\<rparr>"
proof -
  have "wp (copyTrade env options)
          (\<lambda>res s' evs. \<forall>mo\<in>set (ordersCreated evs). mo = \<lparr>tokenID = asset (trade options), orderSide = SELL, amount = h,
                  orderKind = Some (orDefault (orderType options) FAK), orderPrice = None\<rparr>) s"
    using held by (rule_tac wp_copyTrade_sell[OF side]; simp)
  from wpD[OF this run] mo show ?thesis by simp
qed

lemma sale_run:
  "copyTrade (answering demoResponse) (demoOptions ''SELL'') (demoBot heldLedger) =
    (Inr (filled demoResponse demoSellOrder),
     \<lparr>simulateTxDone = True,
      ledger = ledgerRemove heldLedger ''m1'' ''t1'' (Fin (403 / 50)), world = ()\<rparr>,
     demoSellEvents demoResponse
     @ [RemoveHoldings ''m1'' ''t1'' (Fin (403 / 50)) (Inr ()), Log INFO ''Removed '',
        Log SUCCESS ''SELL order executed! ''])"
  by (simp add: demo_defs run_defs)

text \<open>
  Claim C3. In a SELL whose ledger quantity is \<open>h\<close>, every order handed to the venue
  client offers exactly \<open>h\<close>, the full quantity. When the venue's answer to the posted
  order counts as a fill (an order id, and a status that is absent or one of \<^verbatim>\<open>FILLED\<close>,
  \<^verbatim>\<open>PARTIALLY_FILLED\<close>, \<^verbatim>\<open>MATCHED\<close>):

  \<^item> if the response has a \<^verbatim>\<open>makingAmount\<close> (a string that is not empty) whose parsed
    number is positive, that number is the one quantity removed from the holdings, by
    the one call \<^verbatim>\<open>removeHoldings\<close>; nothing is added; the final ledger is the ledger
    that call returned; and unless that call throws, the result is the successful one
    with the order id of the response;

  \<^item> if the response has no \<^verbatim>\<open>makingAmount\<close> (or an empty one, which the program does
    not tell apart), the same holds with the offered quantity \<open>h\<close> in place of the parsed
    number; and with the ledger of the specification the entry of the key is then 0.

  (A quantity that is not positive is the case of claim C6.)
\<close>

theorem sell_offers_all_and_removes_executed:
  fixes env :: "(holdings, 'w) env"
  assumes run: "copyTrade env options s = (res, s', evs)"
    and side: "toUpperCase (tradeSide (trade options)) = ''SELL''"
    and held: "getHoldings env (conditionId (trade options)) (asset (trade options)) (ledger s) = Inr h"
  shows "(\<forall>mo\<in>set (ordersCreated evs). mo = \<lparr>tokenID = asset (trade options), orderSide = SELL, amount = h,
                  orderKind = Some (orDefault (orderType options) FAK), orderPrice = None\<rparr>)
     \<and> (\<forall>r a. postOutcomes evs = [Inr (Some r)] \<and> fillAccepted (Inr (Some r))
              \<and> makingAmount r = Some a \<and> a \<noteq> [] \<and> js_gt (parseFloat env a) (Fin 0) \<longrightarrow>
           quantitiesAdded evs = []
           \<and> quantitiesRemoved evs = [((conditionId (trade options)), (asset (trade options)), parseFloat env a)]
           \<and> ledger s' = snd (removeHoldings env (conditionId (trade options)) (asset (trade options)) (parseFloat env a) (ledger s))
           \<and> (fst (removeHoldings env (conditionId (trade options)) (asset (trade options)) (parseFloat env a) (ledger s)) = Inr () \<longrightarrow>
                res = Inr \<lparr>success = True, resultOrderID = orderID r, error = None,
                           transactionHashes = transactionsHashes r,
                           marketOrder =
                             Some \<lparr>tokenID = asset (trade options), orderSide = SELL,
                                   amount = h,
                                   orderKind = Some (orDefault (orderType options) FAK),
                                   orderPrice = None\<rparr>\<rparr>))
     \<and> (\<forall>r. postOutcomes evs = [Inr (Some r)] \<and> fillAccepted (Inr (Some r))
              \<and> (makingAmount r = None \<or> makingAmount r = Some []) \<and> js_gt h (Fin 0) \<longrightarrow>
           quantitiesAdded evs = []
           \<and> quantitiesRemoved evs = [((conditionId (trade options)), (asset (trade options)), h)]
           \<and> ledger s' = snd (removeHoldings env (conditionId (trade options)) (asset (trade options)) h (ledger s))
           \<and> (fst (removeHoldings env (conditionId (trade options)) (asset (trade options)) h (ledger s)) = Inr () \<longrightarrow>
                res = Inr \<lparr>success = True, resultOrderID = orderID r, error = None,
                           transactionHashes = transactionsHashes r,
                           marketOrder =
                             Some \<lparr>tokenID = asset (trade options), orderSide = SELL,
                                   amount = h,
                                   orderKind = Some (orDefault (orderType options) FAK),
                                   orderPrice = None\<rparr>\<rparr>)
           \<and> (usesSpecLedger env \<longrightarrow> ledgerGet (ledger s') (conditionId (trade options)) (asset (trade options)) = Fin 0))"
proof (intro conjI ballI allI impI)
  fix mo
  assume "mo \<in> set (ordersCreated evs)"
  with run side held show "mo = \<lparr>tokenID = asset (trade options), orderSide = SELL, amount = h,
                  orderKind = Some (orDefault (orderType options) FAK), orderPrice = None\<rparr>"
    by (rule sell_offers_ledger_quantity)
next
  fix r a
  assume a: "postOutcomes evs = [Inr (Some r)] \<and> fillAccepted (Inr (Some r))
              \<and> makingAmount r = Some a \<and> a \<noteq> [] \<and> js_gt (parseFloat env a) (Fin 0)"
  then have sold: "tokensSold env r h = parseFloat env a"
    by (simp add: tokensSold_def truthyStr_def optStr_def)
  from a have ok: "\<not> orderFailed (Some r)" by (simp add: fillAccepted_iff)
  from a sold have pos: "js_gt (tokensSold env r h) (Fin 0)" by simp
  from a have post: "postOutcomes evs = [Inr (Some r)]" by simp
  note facts = sell_settles [OF run side held post ok pos]
  from facts(1) show "quantitiesAdded evs = []" .
  from facts(2) sold show "quantitiesRemoved evs = [((conditionId (trade options)), (asset (trade options)), parseFloat env a)]" by simp
  from facts(3) sold
  show "ledger s' = snd (removeHoldings env (conditionId (trade options)) (asset (trade options)) (parseFloat env a) (ledger s))" by simp
  assume "fst (removeHoldings env (conditionId (trade options)) (asset (trade options)) (parseFloat env a) (ledger s)) = Inr ()"
  with facts(4) sold show "res = Inr \<lparr>success = True, resultOrderID = orderID r, error = None,
                           transactionHashes = transactionsHashes r,
                           marketOrder =
                             Some \<lparr>tokenID = asset (trade options), orderSide = SELL,
                                   amount = h,
                                   orderKind = Some (orDefault (orderType options) FAK),
                                   orderPrice = None\<rparr>\<rparr>" by (simp add: filled_def)
next
  fix r
  assume a: "postOutcomes evs = [Inr (Some r)] \<and> fillAccepted (Inr (Some r))
              \<and> (makingAmount r = None \<or> makingAmount r = Some []) \<and> js_gt h (Fin 0)"
  then have sold: "tokensSold env r h = h"
    by (auto simp: tokensSold_def truthyStr_def)
  from a have ok: "\<not> orderFailed (Some r)" by (simp add: fillAccepted_iff)
  from a sold have pos: "js_gt (tokensSold env r h) (Fin 0)" by simp
  from a have post: "postOutcomes evs = [Inr (Some r)]" by simp
  note facts = sell_settles [OF run side held post ok pos]
  from facts(1) show "quantitiesAdded evs = []" .
  from facts(2) sold show "quantitiesRemoved evs = [((conditionId (trade options)), (asset (trade options)), h)]" by simp
  from facts(3) sold
  show left: "ledger s' = snd (removeHoldings env (conditionId (trade options)) (asset (trade options)) h (ledger s))" by simp
  {
    assume "fst (removeHoldings env (conditionId (trade options)) (asset (trade options)) h (ledger s)) = Inr ()"
    with facts(4) sold show "res = Inr \<lparr>success = True, resultOrderID = orderID r, error = None,
                           transactionHashes = transactionsHashes r,
                           marketOrder =
                             Some \<lparr>tokenID = asset (trade options), orderSide = SELL,
                                   amount = h,
                                   orderKind = Some (orDefault (orderType options) FAK),
                                   orderPrice = None\<rparr>\<rparr>" by (simp add: filled_def)
  }
  assume spec: "usesSpecLedger env"
  with held have h: "h = ledgerGet (ledger s) (conditionId (trade options)) (asset (trade options))" by (simp add: usesSpecLedger_def)
  from spec left have "ledger s' = ledgerRemove (ledger s) (conditionId (trade options)) (asset (trade options)) h"
    by (simp add: usesSpecLedger_def)
  with h a show "ledgerGet (ledger s') (conditionId (trade options)) (asset (trade options)) = Fin 0"
    by (simp add: spec_ledger_sell_all)
qed

theorem sell_offers_all_and_removes_executed_witness:
  "toUpperCase (tradeSide (trade (demoOptions ''SELL''))) = ''SELL''
   \<and> getHoldings (answering demoResponse) ''m1'' ''t1'' heldLedger = Inr (Fin (403 / 50))
   \<and> ordersCreated (demoSellEvents demoResponse
        @ [RemoveHoldings ''m1'' ''t1'' (Fin (403 / 50)) (Inr ()), Log INFO ''Removed '',
           Log SUCCESS ''SELL order executed! '']) = [demoSellOrder]
   \<and> amount demoSellOrder = Fin (403 / 50)
   \<and> postOutcomes (demoSellEvents demoResponse
        @ [RemoveHoldings ''m1'' ''t1'' (Fin (403 / 50)) (Inr ()), Log INFO ''Removed '',
           Log SUCCESS ''SELL order executed! '']) = [Inr (Some demoResponse)]
   \<and> fillAccepted (Inr (Some demoResponse))
   \<and> makingAmount demoResponse = None
   \<and> js_gt (Fin (403 / 50)) (Fin 0)
   \<and> usesSpecLedger (answering demoResponse)
   \<and> quantitiesRemoved (demoSellEvents demoResponse
        @ [RemoveHoldings ''m1'' ''t1'' (Fin (403 / 50)) (Inr ()), Log INFO ''Removed '',
           Log SUCCESS ''SELL order executed! '']) = [(''m1'', ''t1'', Fin (403 / 50))]
   \<and> ledgerGet (ledgerRemove heldLedger ''m1'' ''t1'' (Fin (403 / 50))) ''m1'' ''t1'' = Fin 0"
  using sell_offers_all_and_removes_executed [OF sale_run, of "Fin (403 / 50)"]
  by (simp add: demo_defs run_defs filled_def fillAccepted_def usesSpecLedger_def)

section \<open>When an order counts as filled\<close>





section \<open>\<^verbatim>\<open>copyTrade\<close> never throws\<close>

text \<open>
  Claim C10. For every environment (whatever its collaborators return or throw), every
  options and every state, \<^verbatim>\<open>copyTrade\<close> returns a result and does not throw. A
  successful result has no error and carries the order that was placed; a failed one has
  an error message and no order id.
\<close>

theorem copyTrade_always_returns_a_result:
  "\<exists>y. resultOf (copyTrade env options s) = Inr y
        \<and> (if success y then error y = None \<and> marketOrder y \<noteq> None
            else error y \<noteq> None \<and> resultOrderID y = None)"
proof -
  obtain res s' evs where run: "copyTrade env options s = (res, s', evs)"
    by (cases "copyTrade env options s") auto
  from wpD[OF copyTrade_returns run] run show ?thesis
    by (cases res) (auto simp: resultOf_def)
qed

theorem copyTrade_always_returns_a_result_witness:
  "resultOf (copyTrade
      (demoEnv\<lparr>createMarketOrder := (\<lambda>mo oo w. (Inl (newError ''signing failed''), w))\<rparr>)
      (demoOptions ''BUY'') (demoBot Map.empty))
     = Inr \<lparr>success = False, resultOrderID = None, error = Some ''signing failed'',
            transactionHashes = None, marketOrder = None\<rparr>"
  using copyTrade_always_returns_a_result
          [of "demoEnv\<lparr>createMarketOrder :=
                         (\<lambda>mo oo w. (Inl (newError ''signing failed''), w))\<rparr>"
              "demoOptions ''BUY''" "demoBot Map.empty"]
  by (simp add: demo_defs run_defs failure_def newError_def errorText_def strIncludes_def)

section \<open>What a BUY adds to the holdings\<close>




section \<open>A BUY larger than the balance\<close>

text \<open>
  Claim C5. In a BUY whose balance check reports less available than required (and so
  \<open>valid\<close> false, the flag the program reads), with \<open>mo\<close> the order made from the trade:

  \<^item> when the available balance is positive, the order handed to the venue client is
    \<open>mo\<close> with its amount replaced by the available balance (it is handed over unless
    \<^verbatim>\<open>getDefaultOrderOptions\<close> throws), and the signed order is posted;

  \<^item> when the available balance is zero or negative, the result is the failure
    "Insufficient USDC balance. Available: ...", no order is created or posted, and
    the holdings are not touched.
\<close>

theorem short_balance_shrinks_or_fails:
  assumes run: "copyTrade env options s = (res, s', evs)"
    and side: "toUpperCase (tradeSide (trade options)) \<noteq> ''SELL''"
    and order: "tradeToMarketOrder env options = Inr mo"
    and report: "balanceReports evs = [bc]"
    and short: "js_lt (available bc) (required bc)"
    and flag: "\<not> valid bc"
  shows "(js_gt (available bc) (Fin 0) \<longrightarrow>
            (\<forall>mo'\<in>set (ordersCreated evs). mo' = mo\<lparr>amount := available bc\<rparr>)
            \<and> length (postOutcomes evs) = length (ordersSigned evs)
            \<and> ordersPosted evs = ordersSigned evs
            \<and> (\<forall>oo. getDefaultOrderOptions env
                        (Some (orDefault (tickSize options) ''0.01''))
                        (Some (orDefault (negRisk options) False)) = Inr oo \<longrightarrow>
                   ordersCreated evs = [mo\<lparr>amount := available bc\<rparr>]))
     \<and> (js_le (available bc) (Fin 0) \<longrightarrow>
            res = Inr \<lparr>success = False, resultOrderID = None,
                       error = Some (''Insufficient USDC balance. Available: ''
                                     @ numToString env (available bc)),
                       transactionHashes = None, marketOrder = None\<rparr>
            \<and> ordersCreated evs = [] \<and> postOutcomes evs = [] \<and> holdingsUpdates evs = []
            \<and> ledger s' = ledger s)"
  using wpD[OF buy_sizing[OF side] run] simOnceD[OF simOnce_copyTrade run] order report flag
  by (auto simp: failure_def simFacts_def dest: js_gt_not_le)

theorem short_balance_shrinks_or_fails_witness:
  "toUpperCase (tradeSide (trade (demoOptions ''BUY''))) \<noteq> ''SELL''
   \<and> tradeToMarketOrder (shortEnv (Fin 3)) (demoOptions ''BUY'') = Inr \<lparr>tokenID = ''t1'', orderSide = BUY, amount = Fin 5, orderKind = None,
           orderPrice = None\<rparr>
   \<and> balanceReports (traceOf (copyTrade (shortEnv (Fin 3)) (demoOptions ''BUY'') (demoBot Map.empty)))
       = [\<lparr>valid = False, available = Fin 3, required = Fin 5\<rparr>]
   \<and> js_lt (Fin 3) (Fin 5) \<and> js_gt (Fin 3) (Fin 0)
   \<and> ordersCreated (traceOf (copyTrade (shortEnv (Fin 3)) (demoOptions ''BUY'') (demoBot Map.empty))) = [\<lparr>tokenID = ''t1'', orderSide = BUY, amount = Fin 3, orderKind = None,
           orderPrice = None\<rparr>]
   \<and> postOutcomes (traceOf (copyTrade (shortEnv (Fin 3)) (demoOptions ''BUY'') (demoBot Map.empty))) = [Inr (Some demoResponse)]
   \<and> balanceReports (traceOf (copyTrade (shortEnv (Fin 0)) (demoOptions ''BUY'') (demoBot Map.empty)))
       = [\<lparr>valid = False, available = Fin 0, required = Fin 5\<rparr>]
   \<and> js_le (Fin 0) (Fin 0)
   \<and> ordersCreated (traceOf (copyTrade (shortEnv (Fin 0)) (demoOptions ''BUY'') (demoBot Map.empty))) = []
   \<and> resultOf (copyTrade (shortEnv (Fin 0)) (demoOptions ''BUY'') (demoBot Map.empty)) =
       Inr \<lparr>success = False, resultOrderID = None,
            error = Some ''Insufficient USDC balance. Available: 0'',
            transactionHashes = None, marketOrder = None\<rparr>"
  using short_balance_shrinks_or_fails
          [OF run_parts [of "(copyTrade (shortEnv (Fin 3)) (demoOptions ''BUY'') (demoBot Map.empty))"], of "\<lparr>tokenID = ''t1'', orderSide = BUY, amount = Fin 5, orderKind = None,
           orderPrice = None\<rparr>"
             "\<lparr>valid = False, available = Fin 3, required = Fin 5\<rparr>"]
        short_balance_shrinks_or_fails
          [OF run_parts [of "(copyTrade (shortEnv (Fin 0)) (demoOptions ''BUY'') (demoBot Map.empty))"], of "\<lparr>tokenID = ''t1'', orderSide = BUY, amount = Fin 5, orderKind = None,
           orderPrice = None\<rparr>"
             "\<lparr>valid = False, available = Fin 0, required = Fin 5\<rparr>"]
  by (simp add: demo_defs run_defs failure_def qty_defs proj_defs List.map_filter_simps)


section \<open>A failed approval after a BUY\<close>

text \<open>
  Claim C8. In a BUY that the venue filled, with no throwing call to the holdings,
  whatever \<^verbatim>\<open>approveTokensAfterBuy\<close> does (return, or throw, which is logged as "Failed to
  approve tokens after buy"): the approval step is started; from then on no call updates
  the holdings, so the addition comes before it and is not undone; at most one quantity
  was added and none removed; the final ledger is the one \<^verbatim>\<open>addHoldings\<close> returned for
  the added quantity (the initial one if none was added); and the result is the
  successful one, with the order id of the response and the order placed.
\<close>

theorem approval_failure_keeps_holdings:
  assumes run: "copyTrade env options s = (res, s', evs)"
    and side: "toUpperCase (tradeSide (trade options)) \<noteq> ''SELL''"
    and post: "postOutcomes evs = [Inr (Some r)]"
    and ok: "fillAccepted (Inr (Some r))"
    and order: "ordersCreated evs = [mo]"
    and calm: "\<not> list_ex updateThrew evs"
  shows "ApproveTokensAfterBuy \<in> set evs
     \<and> holdingsUpdates (afterApproval evs) = []
     \<and> quantitiesRemoved evs = []
     \<and> length (quantitiesAdded evs) \<le> 1
     \<and> (\<forall>m t q. quantitiesAdded evs = [(m, t, q)] \<longrightarrow>
           m = conditionId (trade options) \<and> t = asset (trade options)
           \<and> ledger s' = snd (addHoldings env (conditionId (trade options)) (asset (trade options)) q (ledger s)))
     \<and> (quantitiesAdded evs = [] \<longrightarrow> ledger s' = ledger s)
     \<and> res = Inr \<lparr>success = True, resultOrderID = orderID r, error = None,
                   transactionHashes = transactionsHashes r, marketOrder = Some mo\<rparr>"
proof -
  from wpD[OF buy_settles[OF side] run] post ok order calm
  have added: "quantitiesAdded evs
                 = map (\<lambda>q. (conditionId (trade options), asset (trade options), q)) (creditedTokens env (trade options) mo r)"
    and left: "ledger s'
             = (case creditedTokens env (trade options) mo r of
                  [] \<Rightarrow> ledger s
                | q # _ \<Rightarrow> snd (addHoldings env (conditionId (trade options)) (asset (trade options)) q (ledger s)))"
    and rest: "ApproveTokensAfterBuy \<in> set evs" "holdingsUpdates (afterApproval evs) = []"
      "quantitiesRemoved evs = []" "res = Inr (filled r mo)"
    by simp_all
  have one: "length (creditedTokens env (trade options) mo r) \<le> 1"
    by (simp add: creditedTokens_def)
  from added left rest one show ?thesis
    by (cases "creditedTokens env (trade options) mo r") (auto simp: filled_def)
qed

theorem approval_failure_keeps_holdings_witness:
  "toUpperCase (tradeSide (trade (demoOptions ''BUY''))) \<noteq> ''SELL''
   \<and> postOutcomes (traceOf (copyTrade (unapprovedEnv demoResponse) (demoOptions ''BUY'') (demoBot Map.empty))) = [Inr (Some demoResponse)]
   \<and> fillAccepted (Inr (Some demoResponse))
   \<and> ordersCreated (traceOf (copyTrade (unapprovedEnv demoResponse) (demoOptions ''BUY'') (demoBot Map.empty))) = [\<lparr>tokenID = ''t1'', orderSide = BUY, amount = Fin 5, orderKind = None,
           orderPrice = None\<rparr>]
   \<and> \<not> list_ex updateThrew (traceOf (copyTrade (unapprovedEnv demoResponse) (demoOptions ''BUY'') (demoBot Map.empty)))
   \<and> Log WARN ''Failed to approve tokens after buy: '' \<in> set (traceOf (copyTrade (unapprovedEnv demoResponse) (demoOptions ''BUY'') (demoBot Map.empty)))
   \<and> quantitiesAdded (traceOf (copyTrade (unapprovedEnv demoResponse) (demoOptions ''BUY'') (demoBot Map.empty))) = [(''m1'', ''t1'', Fin (250 / 31))]
   \<and> holdingsUpdates (afterApproval (traceOf (copyTrade (unapprovedEnv demoResponse) (demoOptions ''BUY'') (demoBot Map.empty)))) = []
   \<and> ledgerGet (ledger (stateOf (copyTrade (unapprovedEnv demoResponse) (demoOptions ''BUY'') (demoBot Map.empty)))) ''m1'' ''t1'' = Fin (250 / 31)
   \<and> resultOf (copyTrade (unapprovedEnv demoResponse) (demoOptions ''BUY'') (demoBot Map.empty)) =
       Inr \<lparr>success = True, resultOrderID = Some ''abc123'', error = None,
            transactionHashes = None, marketOrder = Some \<lparr>tokenID = ''t1'', orderSide = BUY, amount = Fin 5, orderKind = None,
           orderPrice = None\<rparr>\<rparr>"
  using approval_failure_keeps_holdings [OF run_parts [of "(copyTrade (unapprovedEnv demoResponse) (demoOptions ''BUY'') (demoBot Map.empty))"], of demoResponse "\<lparr>tokenID = ''t1'', orderSide = BUY, amount = Fin 5, orderKind = None,
           orderPrice = None\<rparr>"]
  by (simp add: demo_defs run_defs fillAccepted_def filled_def qty_defs proj_defs
        List.map_filter_simps afterApproval_def)

section \<open>The simulation runs once and gates nothing\<close>

text \<open>
  Claim C7. Over any sequence of requests (\<^verbatim>\<open>copyTrade\<close>, \<^verbatim>\<open>placeMarketBuy\<close>,
  \<^verbatim>\<open>placeMarketSell\<close>) served by one instance, from any state and with any
  collaborators: at most one simulation runs, and none when the flag of the instance is
  already set; no simulation runs from the first post on; the signed orders posted are
  exactly the signed orders the venue client returned, in order, so no outcome of the
  simulation (a failed request, an answer that is not OK, a wallet that cannot be built)
  keeps a signed order from being posted; and every simulated order is posted after its
  simulation.
\<close>

theorem simulation_at_most_once_and_never_gating:
  assumes "serveAll env qs s = (rs, s', evs)"
  shows "length (filter isSimulateTx evs) \<le> 1
     \<and> (simulateTxDone s \<longrightarrow> filter isSimulateTx evs = [])
     \<and> filter isSimulateTx (fromFirstPost evs) = []
     \<and> ordersPosted evs = ordersSigned evs
     \<and> postsAfterSim evs"
  using serveAll_simFacts[OF assms] by (simp add: simFacts_def)

theorem simulation_at_most_once_and_never_gating_witness:
  "filter isSimulateTx (traceOf (serveAll offlineEnv
        [CopyTrade (demoOptions ''SELL''),
         PlaceMarketBuy ''t1'' (Fin 2)
           \<lparr>placeTickSize = None, placeNegRisk = None, placeOrderType = None,
            placePrice = None\<rparr>]
        (demoBot heldLedger)))
     = [SimulateTx \<lparr>address = ''0xA'', signer = ''key''\<rparr> ''signed''
          ''https://polymarket.clob.health'']
   \<and> Fetch ''https://polymarket.clob.health/api/simulate''
        \<lparr>address = ''0xA'', signer = ''key''\<rparr> ''signed'' (Inl (newError ''fetch failed''))
       \<in> set (traceOf (serveAll offlineEnv
        [CopyTrade (demoOptions ''SELL''),
         PlaceMarketBuy ''t1'' (Fin 2)
           \<lparr>placeTickSize = None, placeNegRisk = None, placeOrderType = None,
            placePrice = None\<rparr>]
        (demoBot heldLedger)))
   \<and> Log WARN ''Tx simulate failed: '' \<in> set (traceOf (serveAll offlineEnv
        [CopyTrade (demoOptions ''SELL''),
         PlaceMarketBuy ''t1'' (Fin 2)
           \<lparr>placeTickSize = None, placeNegRisk = None, placeOrderType = None,
            placePrice = None\<rparr>]
        (demoBot heldLedger)))
   \<and> ordersSigned (traceOf (serveAll offlineEnv
        [CopyTrade (demoOptions ''SELL''),
         PlaceMarketBuy ''t1'' (Fin 2)
           \<lparr>placeTickSize = None, placeNegRisk = None, placeOrderType = None,
            placePrice = None\<rparr>]
        (demoBot heldLedger))) = [''signed'', ''signed'']
   \<and> ordersPosted (traceOf (serveAll offlineEnv
        [CopyTrade (demoOptions ''SELL''),
         PlaceMarketBuy ''t1'' (Fin 2)
           \<lparr>placeTickSize = None, placeNegRisk = None, placeOrderType = None,
            placePrice = None\<rparr>]
        (demoBot heldLedger))) = [''signed'', ''signed'']
   \<and> filter isSimulateTx (fromFirstPost (traceOf (serveAll offlineEnv
        [CopyTrade (demoOptions ''SELL''),
         PlaceMarketBuy ''t1'' (Fin 2)
           \<lparr>placeTickSize = None, placeNegRisk = None, placeOrderType = None,
            placePrice = None\<rparr>]
        (demoBot heldLedger)))) = []
   \<and> postsAfterSim (traceOf (serveAll offlineEnv
        [CopyTrade (demoOptions ''SELL''),
         PlaceMarketBuy ''t1'' (Fin 2)
           \<lparr>placeTickSize = None, placeNegRisk = None, placeOrderType = None,
            placePrice = None\<rparr>]
        (demoBot heldLedger)))"
  using simulation_at_most_once_and_never_gating
          [of offlineEnv
              "[CopyTrade (demoOptions ''SELL''),
                PlaceMarketBuy ''t1'' (Fin 2)
                  \<lparr>placeTickSize = None, placeNegRisk = None, placeOrderType = None,
                   placePrice = None\<rparr>]"
              "demoBot heldLedger" "fst (serveAll offlineEnv
        [CopyTrade (demoOptions ''SELL''),
         PlaceMarketBuy ''t1'' (Fin 2)
           \<lparr>placeTickSize = None, placeNegRisk = None, placeOrderType = None,
            placePrice = None\<rparr>]
        (demoBot heldLedger))" "fst (snd (serveAll offlineEnv
        [CopyTrade (demoOptions ''SELL''),
         PlaceMarketBuy ''t1'' (Fin 2)
           \<lparr>placeTickSize = None, placeNegRisk = None, placeOrderType = None,
            placePrice = None\<rparr>]
        (demoBot heldLedger)))" "snd (snd (serveAll offlineEnv
        [CopyTrade (demoOptions ''SELL''),
         PlaceMarketBuy ''t1'' (Fin 2)
           \<lparr>placeTickSize = None, placeNegRisk = None, placeOrderType = None,
            placePrice = None\<rparr>]
        (demoBot heldLedger)))"]
  by (simp add: demo_defs run_defs serve_def placeMarketBuy_def placeMarket_def
        ordersSigned_def List.map_filter_simps)

section \<open>The fallback over RPC endpoints\<close>





end
